theory Spec2Isabelle
  imports Main "HOL-Library.Word"
begin

section \<open>The ledger contract: contracts/PrivateVideoCall.sol\<close>

text \<open>
  Solidity value types are machine words. A ciphertext handle of the encrypted-integer
  library (\<open>euint32\<close>, \<open>euint64\<close>) is represented by the plaintext that
  \<open>FHE.asEuint32\<close> / \<open>FHE.asEuint64\<close> was given; the library's access-control calls
  (\<open>FHE.allowThis\<close>, \<open>FHE.allow\<close>) write the library's own state and no storage
  variable of this contract, so they have no counterpart below.
\<close>

type_synonym address = "160 word"
type_synonym uint256 = "256 word"
type_synonym bytes32 = "256 word"
type_synonym uint64 = "64 word"
type_synonym uint32 = "32 word"
type_synonym euint64 = "64 word"
type_synonym euint32 = "32 word"

record VideoCall =
  initiator :: address
  recipient :: address
  encryptedCallKey :: euint64
  encryptedSignalingData :: euint32
  isActive :: bool
  isConnected :: bool
  startTime :: uint256
  endTime :: uint256
  encryptedMetadata :: euint32

text \<open>The fields \<open>from\<close> and \<open>to\<close> of the struct are \<open>inv_from\<close> and \<open>inv_to\<close> here.\<close>

record CallInvitation =
  inv_from :: address
  inv_to :: address
  encryptedInviteKey :: euint64
  timestamp :: uint256
  isAccepted :: bool
  isDeclined :: bool

record UserProfile =
  isRegistered :: bool
  encryptedStatus :: euint32
  encryptedPublicKey :: euint64
  blockedUsers :: "address \<Rightarrow> bool"
  trustedContacts :: "address \<Rightarrow> bool"

text \<open>
  A Solidity mapping is total: a key never written reads as the zero value of the
  value type. Mappings are therefore total functions, and the constructor's state maps
  every key to the zero struct.
\<close>

record ledger =
  owner :: address
  nextCallId :: uint256
  videoCalls :: "uint256 \<Rightarrow> VideoCall"
  callInvitations :: "bytes32 \<Rightarrow> CallInvitation"
  userProfiles :: "address \<Rightarrow> UserProfile"
  userCallHistory :: "address \<Rightarrow> uint256 list"

datatype event =
    UserRegistered address
  | CallInvited address address bytes32
  | CallAccepted address address uint256
  | CallDeclined address address bytes32
  | CallStarted uint256 address address
  | CallEnded uint256 uint256
  | SignalingDataUpdated uint256 address
  | UserStatusUpdated address
  | ContactAdded address address bool
  | UserBlocked address address

text \<open>
  One constructor per \<open>require\<close> message of the contract; \<open>Panic\<close> is the revert of
  checked arithmetic (compiler 0.8: \<open>nextCallId++\<close> overflowing, \<open>endTime - startTime\<close>
  underflowing).
\<close>

datatype error =
    NotAuthorized
  | UserNotRegistered
  | CallDoesNotExist
  | NotACallParticipant
  | UserAlreadyRegistered
  | CannotInviteYourself
  | RecipientNotRegistered
  | YouAreBlocked
  | NotYourInvitation
  | InvitationAlreadyResponded
  | CallNotReadyOrAlreadyConnected
  | CallNotActive
  | CallAlreadyEnded
  | CannotAddYourself
  | ContactNotRegistered
  | CannotBlockYourself
  | Panic

text \<open>The transaction context: \<open>msg.sender\<close> and \<open>block.timestamp\<close>.\<close>

record env =
  msg_sender :: address
  block_timestamp :: uint256

type_synonym 'a result = "error + 'a"

definition zeroVideoCall :: VideoCall where
  "zeroVideoCall = \<lparr>initiator = 0, recipient = 0, encryptedCallKey = 0,
     encryptedSignalingData = 0, isActive = False, isConnected = False,
     startTime = 0, endTime = 0, encryptedMetadata = 0\<rparr>"

definition zeroCallInvitation :: CallInvitation where
  "zeroCallInvitation = \<lparr>inv_from = 0, inv_to = 0, encryptedInviteKey = 0,
     timestamp = 0, isAccepted = False, isDeclined = False\<rparr>"

definition zeroUserProfile :: UserProfile where
  "zeroUserProfile = \<lparr>isRegistered = False, encryptedStatus = 0, encryptedPublicKey = 0,
     blockedUsers = (\<lambda>_. False), trustedContacts = (\<lambda>_. False)\<rparr>"

definition constructor :: "address \<Rightarrow> ledger" where
  "constructor deployer = \<lparr>owner = deployer, nextCallId = 1,
     videoCalls = (\<lambda>_. zeroVideoCall),
     callInvitations = (\<lambda>_. zeroCallInvitation),
     userProfiles = (\<lambda>_. zeroUserProfile),
     userCallHistory = (\<lambda>_. [])\<rparr>"

subsection \<open>Modifiers\<close>

definition onlyRegistered :: "ledger \<Rightarrow> env \<Rightarrow> bool" where
  "onlyRegistered s e = isRegistered (userProfiles s (msg_sender e))"

definition callExists :: "ledger \<Rightarrow> uint256 \<Rightarrow> bool" where
  "callExists s callId = (callId < nextCallId s)"

definition onlyCallParticipant :: "ledger \<Rightarrow> env \<Rightarrow> uint256 \<Rightarrow> bool" where
  "onlyCallParticipant s e callId =
     (msg_sender e = initiator (videoCalls s callId) \<or>
      msg_sender e = recipient (videoCalls s callId))"

subsection \<open>External functions\<close>

text \<open>
  Every function returns \<open>Inl\<close> of the failed \<open>require\<close> (in the order the modifiers
  and the body test them) or \<open>Inr\<close> of the new storage and the events emitted.
\<close>

definition registerUser :: "ledger \<Rightarrow> env \<Rightarrow> uint32 \<Rightarrow> uint32 \<Rightarrow> (ledger \<times> event list) result" where
  "registerUser s e publicKey initialStatus =
     (if isRegistered (userProfiles s (msg_sender e)) then Inl UserAlreadyRegistered
      else Inr (s\<lparr>userProfiles := (userProfiles s)(msg_sender e :=
                     (userProfiles s (msg_sender e))\<lparr>isRegistered := True,
                        encryptedPublicKey := ucast publicKey,
                        encryptedStatus := initialStatus\<rparr>)\<rparr>,
                [UserRegistered (msg_sender e)]))"

definition updateUserStatus :: "ledger \<Rightarrow> env \<Rightarrow> uint32 \<Rightarrow> (ledger \<times> event list) result" where
  "updateUserStatus s e newStatus =
     (if \<not> onlyRegistered s e then Inl UserNotRegistered
      else Inr (s\<lparr>userProfiles := (userProfiles s)(msg_sender e :=
                     (userProfiles s (msg_sender e))\<lparr>encryptedStatus := newStatus\<rparr>)\<rparr>,
                [UserStatusUpdated (msg_sender e)]))"

text \<open>
  \<open>keccak256(abi.encodePacked(msg.sender, _recipient, block.timestamp))\<close> is a
  primitive of the virtual machine. The functions take it as the parameter \<open>H\<close>, a
  function of the three packed values; nothing is assumed of it.
\<close>

definition inviteToCall ::
  "(address \<Rightarrow> address \<Rightarrow> uint256 \<Rightarrow> bytes32) \<Rightarrow> ledger \<Rightarrow> env \<Rightarrow> address \<Rightarrow> uint64
     \<Rightarrow> (ledger \<times> event list) result" where
  "inviteToCall H s e rcpt inviteKey =
     (if \<not> onlyRegistered s e then Inl UserNotRegistered
      else if rcpt = msg_sender e then Inl CannotInviteYourself
      else if \<not> isRegistered (userProfiles s rcpt) then Inl RecipientNotRegistered
      else if blockedUsers (userProfiles s rcpt) (msg_sender e) then Inl YouAreBlocked
      else
        let inviteId = H (msg_sender e) rcpt (block_timestamp e) in
        Inr (s\<lparr>callInvitations := (callInvitations s)(inviteId :=
                  \<lparr>inv_from = msg_sender e, inv_to = rcpt, encryptedInviteKey = inviteKey,
                   timestamp = block_timestamp e, isAccepted = False, isDeclined = False\<rparr>)\<rparr>,
             [CallInvited (msg_sender e) rcpt inviteId]))"

definition acceptCallInvitation ::
  "ledger \<Rightarrow> env \<Rightarrow> bytes32 \<Rightarrow> uint64 \<Rightarrow> uint32 \<Rightarrow> (ledger \<times> event list) result" where
  "acceptCallInvitation s e inviteId callKey signalingData =
     (let invitation = callInvitations s inviteId in
      if \<not> onlyRegistered s e then Inl UserNotRegistered
      else if inv_to invitation \<noteq> msg_sender e then Inl NotYourInvitation
      else if \<not> (\<not> isAccepted invitation \<and> \<not> isDeclined invitation)
        then Inl InvitationAlreadyResponded
      else if nextCallId s = - 1 then Inl Panic
      else
        let callId = nextCallId s in
        Inr (s\<lparr>callInvitations := (callInvitations s)(inviteId :=
                  invitation\<lparr>isAccepted := True\<rparr>),
               nextCallId := nextCallId s + 1,
               videoCalls := (videoCalls s)(callId :=
                  \<lparr>initiator = inv_from invitation, recipient = msg_sender e,
                   encryptedCallKey = callKey, encryptedSignalingData = signalingData,
                   isActive = True, isConnected = False,
                   startTime = block_timestamp e, endTime = 0, encryptedMetadata = 0\<rparr>),
               userCallHistory :=
                 (let h = (userCallHistory s)(inv_from invitation :=
                            userCallHistory s (inv_from invitation) @ [callId])
                  in h(msg_sender e := h (msg_sender e) @ [callId]))\<rparr>,
             [CallAccepted (inv_from invitation) (msg_sender e) callId]))"

definition declineCallInvitation ::
  "ledger \<Rightarrow> env \<Rightarrow> bytes32 \<Rightarrow> (ledger \<times> event list) result" where
  "declineCallInvitation s e inviteId =
     (let invitation = callInvitations s inviteId in
      if \<not> onlyRegistered s e then Inl UserNotRegistered
      else if inv_to invitation \<noteq> msg_sender e then Inl NotYourInvitation
      else if \<not> (\<not> isAccepted invitation \<and> \<not> isDeclined invitation)
        then Inl InvitationAlreadyResponded
      else
        Inr (s\<lparr>callInvitations := (callInvitations s)(inviteId :=
                  invitation\<lparr>isDeclined := True\<rparr>)\<rparr>,
             [CallDeclined (inv_from invitation) (msg_sender e) inviteId]))"

definition startVideoCall :: "ledger \<Rightarrow> env \<Rightarrow> uint256 \<Rightarrow> (ledger \<times> event list) result" where
  "startVideoCall s e callId =
     (let call = videoCalls s callId in
      if \<not> callExists s callId then Inl CallDoesNotExist
      else if \<not> onlyCallParticipant s e callId then Inl NotACallParticipant
      else if \<not> (isActive call \<and> \<not> isConnected call) then Inl CallNotReadyOrAlreadyConnected
      else
        Inr (s\<lparr>videoCalls := (videoCalls s)(callId :=
                  call\<lparr>isConnected := True, startTime := block_timestamp e\<rparr>)\<rparr>,
             [CallStarted callId (initiator call) (recipient call)]))"

definition updateSignalingData ::
  "ledger \<Rightarrow> env \<Rightarrow> uint256 \<Rightarrow> uint32 \<Rightarrow> (ledger \<times> event list) result" where
  "updateSignalingData s e callId newSignalingData =
     (let call = videoCalls s callId in
      if \<not> callExists s callId then Inl CallDoesNotExist
      else if \<not> onlyCallParticipant s e callId then Inl NotACallParticipant
      else if \<not> isActive call then Inl CallNotActive
      else
        Inr (s\<lparr>videoCalls := (videoCalls s)(callId :=
                  call\<lparr>encryptedSignalingData := newSignalingData\<rparr>)\<rparr>,
             [SignalingDataUpdated callId (msg_sender e)]))"

definition endVideoCall :: "ledger \<Rightarrow> env \<Rightarrow> uint256 \<Rightarrow> (ledger \<times> event list) result" where
  "endVideoCall s e callId =
     (let call = videoCalls s callId in
      if \<not> callExists s callId then Inl CallDoesNotExist
      else if \<not> onlyCallParticipant s e callId then Inl NotACallParticipant
      else if \<not> isActive call then Inl CallAlreadyEnded
      else if block_timestamp e < startTime call then Inl Panic
      else
        Inr (s\<lparr>videoCalls := (videoCalls s)(callId :=
                  call\<lparr>isActive := False, endTime := block_timestamp e\<rparr>)\<rparr>,
             [CallEnded callId (block_timestamp e - startTime call)]))"

definition addTrustedContact :: "ledger \<Rightarrow> env \<Rightarrow> address \<Rightarrow> (ledger \<times> event list) result" where
  "addTrustedContact s e contact =
     (if \<not> onlyRegistered s e then Inl UserNotRegistered
      else if contact = msg_sender e then Inl CannotAddYourself
      else if \<not> isRegistered (userProfiles s contact) then Inl ContactNotRegistered
      else
        Inr (s\<lparr>userProfiles := (userProfiles s)(msg_sender e :=
                  (userProfiles s (msg_sender e))\<lparr>trustedContacts :=
                     (trustedContacts (userProfiles s (msg_sender e)))(contact := True)\<rparr>)\<rparr>,
             [ContactAdded (msg_sender e) contact True]))"

definition blockUser :: "ledger \<Rightarrow> env \<Rightarrow> address \<Rightarrow> (ledger \<times> event list) result" where
  "blockUser s e user =
     (if \<not> onlyRegistered s e then Inl UserNotRegistered
      else if user = msg_sender e then Inl CannotBlockYourself
      else
        Inr (s\<lparr>userProfiles := (userProfiles s)(msg_sender e :=
                  (userProfiles s (msg_sender e))\<lparr>blockedUsers :=
                     (blockedUsers (userProfiles s (msg_sender e)))(user := True)\<rparr>)\<rparr>,
             [UserBlocked (msg_sender e) user]))"

definition unblockUser :: "ledger \<Rightarrow> env \<Rightarrow> address \<Rightarrow> (ledger \<times> event list) result" where
  "unblockUser s e user =
     (if \<not> onlyRegistered s e then Inl UserNotRegistered
      else
        Inr (s\<lparr>userProfiles := (userProfiles s)(msg_sender e :=
                  (userProfiles s (msg_sender e))\<lparr>blockedUsers :=
                     (blockedUsers (userProfiles s (msg_sender e)))(user := False)\<rparr>)\<rparr>,
             []))"

subsection \<open>Transactions\<close>

text \<open>
  The state-changing functions of the contract's interface, as the calls a client can
  submit. A transaction that reverts leaves the storage as it was and emits nothing.
\<close>

datatype call =
    RegisterUser uint32 uint32
  | UpdateUserStatus uint32
  | InviteToCall address uint64
  | AcceptCallInvitation bytes32 uint64 uint32
  | DeclineCallInvitation bytes32
  | StartVideoCall uint256
  | UpdateSignalingData uint256 uint32
  | EndVideoCall uint256
  | AddTrustedContact address
  | BlockUser address
  | UnblockUser address

fun dispatch ::
  "(address \<Rightarrow> address \<Rightarrow> uint256 \<Rightarrow> bytes32) \<Rightarrow> ledger \<Rightarrow> env \<Rightarrow> call
     \<Rightarrow> (ledger \<times> event list) result" where
  "dispatch H s e (RegisterUser k st) = registerUser s e k st"
| "dispatch H s e (UpdateUserStatus st) = updateUserStatus s e st"
| "dispatch H s e (InviteToCall r k) = inviteToCall H s e r k"
| "dispatch H s e (AcceptCallInvitation i k d) = acceptCallInvitation s e i k d"
| "dispatch H s e (DeclineCallInvitation i) = declineCallInvitation s e i"
| "dispatch H s e (StartVideoCall c) = startVideoCall s e c"
| "dispatch H s e (UpdateSignalingData c d) = updateSignalingData s e c d"
| "dispatch H s e (EndVideoCall c) = endVideoCall s e c"
| "dispatch H s e (AddTrustedContact a) = addTrustedContact s e a"
| "dispatch H s e (BlockUser a) = blockUser s e a"
| "dispatch H s e (UnblockUser a) = unblockUser s e a"

definition transact ::
  "(address \<Rightarrow> address \<Rightarrow> uint256 \<Rightarrow> bytes32) \<Rightarrow> ledger \<Rightarrow> env \<times> call \<Rightarrow> ledger \<times> event list" where
  "transact H s tx =
     (case dispatch H s (fst tx) (snd tx) of Inl _ \<Rightarrow> (s, []) | Inr r \<Rightarrow> r)"

fun run_ledger ::
  "(address \<Rightarrow> address \<Rightarrow> uint256 \<Rightarrow> bytes32) \<Rightarrow> ledger \<Rightarrow> (env \<times> call) list \<Rightarrow> ledger \<times> event list" where
  "run_ledger H s [] = (s, [])"
| "run_ledger H s (tx # txs) =
     (let (s1, ev1) = transact H s tx; (s2, ev2) = run_ledger H s1 txs in (s2, ev1 @ ev2))"

section \<open>The call lifecycle coordinator: class PrivateVideoCallApp of app.js\<close>

text \<open>
  The fields of the class that its call handling reads or writes. The class has no field
  for a phase: what the coordinator tracks is exactly \<open>currentCallId\<close>,
  \<open>currentInviteId\<close>, \<open>callStartTime\<close> and the three resource handles.
  \<^item> \<open>null\<close> is \<open>None\<close>. \<open>currentCallId\<close> holds \<open>callId.toString()\<close>, the decimal
    string of a \<open>uint256\<close>, and \<open>currentInviteId\<close> the hex string of a \<open>bytes32\<close>;
    neither string is ever empty, so the tests \<open>!this.currentCallId\<close> and
    \<open>!this.currentInviteId\<close> are tests for \<open>None\<close>, and \<open>===\<close> on two decimal
    strings is equality of the numbers.
  \<^item> Addresses are compared after \<open>toLowerCase()\<close>, that is, as the 160-bit values
    their hex strings denote.
  \<^item> The record describes the object once \<open>connectWallet\<close> has succeeded
    (\<open>userAddress\<close> and \<open>contract\<close> set): only then does \<open>init\<close> install the
    contract listeners.
  Writes to the page (\<open>document.getElementById(...)\<close>) and to the console are left out.
\<close>

type_synonym stream = nat

datatype peer = RTCPeerConnection (senders: "stream option")

record app =
  userAddress :: address
  localStream :: "stream option"
  remoteStream :: "stream option"
  peerConnection :: "peer option"
  currentCallId :: "uint256 option"
  currentInviteId :: "bytes32 option"
  callStartTime :: "nat option"
  durationInterval :: "nat option"
  selectedContact :: "address option"

text \<open>What a handler asks of the world outside the object.\<close>

datatype effect =
    Submit call
  | GetUserMedia
  | StopTracks stream
  | ClosePeer peer
  | SetInterval nat
  | ClearInterval nat
  | ToggleAudio stream
  | ToggleVideo stream
  | LoadCallHistory
  | Alert

text \<open>
  What the browser returns to the reads a handler makes while it runs: \<open>Date.now()\<close>,
  the identifier \<open>setInterval\<close> hands out, and the two \<open>Math.random()\<close> draws after
  scaling and \<open>Math.floor\<close>.
\<close>

record browser =
  date_now :: nat
  timer_id :: nat
  random_key :: uint64
  random_data :: uint32

definition PrivateVideoCallApp :: "address \<Rightarrow> app" where
  "PrivateVideoCallApp self = \<lparr>userAddress = self, localStream = None, remoteStream = None,
     peerConnection = None, currentCallId = None, currentInviteId = None,
     callStartTime = None, durationInterval = None, selectedContact = None\<rparr>"

subsection \<open>Synchronous methods\<close>

definition showIncomingCall :: "app \<Rightarrow> address \<Rightarrow> bytes32 \<Rightarrow> app" where
  "showIncomingCall s frm inviteId = s\<lparr>currentInviteId := Some inviteId\<rparr>"

definition hideIncomingCall :: "app \<Rightarrow> app" where
  "hideIncomingCall s = s\<lparr>currentInviteId := None\<rparr>"

definition startCallTimer :: "browser \<Rightarrow> app \<Rightarrow> app \<times> effect list" where
  "startCallTimer b s = (s\<lparr>durationInterval := Some (timer_id b)\<rparr>, [SetInterval (timer_id b)])"

definition handleCallStarted :: "browser \<Rightarrow> app \<Rightarrow> uint256 \<Rightarrow> app \<times> effect list" where
  "handleCallStarted b s callId =
     startCallTimer b (s\<lparr>currentCallId := Some callId, callStartTime := Some (date_now b)\<rparr>)"

text \<open>
  \<open>cleanup\<close>: each of the three \<open>if\<close> blocks releases and forgets one handle; a
  number is truthy when it is not 0. The method ends by resetting \<open>currentCallId\<close> and
  \<open>callStartTime\<close>; it does not assign \<open>currentInviteId\<close> or \<open>remoteStream\<close>.
\<close>

definition cleanup :: "app \<Rightarrow> app \<times> effect list" where
  "cleanup s =
     (let (s1, e1) = (case localStream s of
                        Some st \<Rightarrow> (s\<lparr>localStream := None\<rparr>, [StopTracks st])
                      | None \<Rightarrow> (s, []));
          (s2, e2) = (case peerConnection s1 of
                        Some p \<Rightarrow> (s1\<lparr>peerConnection := None\<rparr>, [ClosePeer p])
                      | None \<Rightarrow> (s1, []));
          (s3, e3) = (case durationInterval s2 of
                        Some n \<Rightarrow> (if n \<noteq> 0 then (s2\<lparr>durationInterval := None\<rparr>, [ClearInterval n])
                                   else (s2, []))
                      | None \<Rightarrow> (s2, []))
      in (s3\<lparr>currentCallId := None, callStartTime := None\<rparr>, e1 @ e2 @ e3))"

definition handleCallEnded :: "app \<Rightarrow> uint256 \<Rightarrow> app \<times> effect list" where
  "handleCallEnded s duration = (let (s1, e1) = cleanup s in (s1, e1 @ [LoadCallHistory]))"

definition initializeWebRTC :: "app \<Rightarrow> app" where
  "initializeWebRTC s = s\<lparr>peerConnection := Some (RTCPeerConnection (localStream s))\<rparr>"

definition selectContact :: "app \<Rightarrow> address \<Rightarrow> app" where
  "selectContact s a = s\<lparr>selectedContact := Some a\<rparr>"

definition toggleMute :: "app \<Rightarrow> app \<times> effect list" where
  "toggleMute s = (case localStream s of Some st \<Rightarrow> (s, [ToggleAudio st]) | None \<Rightarrow> (s, []))"

definition toggleVideo :: "app \<Rightarrow> app \<times> effect list" where
  "toggleVideo s = (case localStream s of Some st \<Rightarrow> (s, [ToggleVideo st]) | None \<Rightarrow> (s, []))"

subsection \<open>Asynchronous methods\<close>

text \<open>
  An \<open>async\<close> method runs without interruption up to its first pending \<open>await\<close> and
  returns; other handlers run before it is resumed. Each such method is therefore two
  functions: the part up to the request it awaits, with the name of the method, and
  \<open>_resume\<close>, the part that runs when the request has settled. For a transaction the
  settlement is \<open>True\<close> when \<open>contract.f(...)\<close> and \<open>tx.wait()\<close> both fulfil and
  \<open>False\<close> when either rejects, which takes the method to its \<open>catch\<close> block; every
  \<open>catch\<close> block of the class only writes to the console.
\<close>

definition initiateCall :: "browser \<Rightarrow> app \<Rightarrow> app \<times> effect list" where
  "initiateCall b s =
     (case selectedContact s of
        None \<Rightarrow> (s, [Alert])
      | Some c \<Rightarrow> (s, [Submit (InviteToCall c (random_key b))]))"

definition initiateCall_resume :: "app \<Rightarrow> bool \<Rightarrow> app \<times> effect list" where
  "initiateCall_resume s ok = (s, [])"

definition acceptInvite :: "browser \<Rightarrow> app \<Rightarrow> app \<times> effect list" where
  "acceptInvite b s =
     (case currentInviteId s of
        None \<Rightarrow> (s, [])
      | Some i \<Rightarrow> (s, [Submit (AcceptCallInvitation i (random_key b) (random_data b))]))"

definition acceptInvite_resume :: "app \<Rightarrow> bool \<Rightarrow> app \<times> effect list" where
  "acceptInvite_resume s ok = (if ok then (hideIncomingCall s, []) else (s, []))"

definition declineInvite :: "app \<Rightarrow> app \<times> effect list" where
  "declineInvite s =
     (case currentInviteId s of
        None \<Rightarrow> (s, [])
      | Some i \<Rightarrow> (s, [Submit (DeclineCallInvitation i)]))"

definition declineInvite_resume :: "app \<Rightarrow> bool \<Rightarrow> app \<times> effect list" where
  "declineInvite_resume s ok = (if ok then (hideIncomingCall s, []) else (s, []))"

definition endCall :: "app \<Rightarrow> app \<times> effect list" where
  "endCall s =
     (case currentCallId s of
        None \<Rightarrow> (s, [])
      | Some c \<Rightarrow> (s, [Submit (EndVideoCall c)]))"

definition endCall_resume :: "app \<Rightarrow> bool \<Rightarrow> app \<times> effect list" where
  "endCall_resume s ok = (if ok then cleanup s else (s, []))"

text \<open>
  \<open>startVideoCall\<close> of the class (the contract has a function of the same name) awaits
  \<open>startMediaCapture\<close>, whose own first \<open>await\<close> is \<open>getUserMedia\<close>.
  \<open>startMediaCapture_resume\<close> stores the stream, or rethrows the rejection
  (\<open>None\<close>). \<open>startVideoCall_app_resume\<close> continues after it: on the rethrown
  error it goes to its \<open>catch\<close>; otherwise it runs \<open>initializeWebRTC\<close> and calls
  \<open>contract.startVideoCall(this.currentCallId)\<close> with the value the field has by then.
  When that value is \<open>null\<close> the contract library rejects the argument, which is again
  the \<open>catch\<close> block, and nothing is submitted.
\<close>

definition startVideoCall_app :: "app \<Rightarrow> app \<times> effect list" where
  "startVideoCall_app s =
     (case currentCallId s of
        None \<Rightarrow> (s, [])
      | Some c \<Rightarrow> (s, [GetUserMedia]))"

definition startMediaCapture_resume :: "app \<Rightarrow> stream option \<Rightarrow> app option" where
  "startMediaCapture_resume s media =
     (case media of
        Some st \<Rightarrow> Some (s\<lparr>localStream := Some st\<rparr>)
      | None \<Rightarrow> None)"

definition startVideoCall_app_resume :: "app \<Rightarrow> stream option \<Rightarrow> app \<times> effect list" where
  "startVideoCall_app_resume s media =
     (case startMediaCapture_resume s media of
        None \<Rightarrow> (s, [])
      | Some s1 \<Rightarrow>
          (let s2 = initializeWebRTC s1 in
           case currentCallId s2 of
             None \<Rightarrow> (s2, [])
           | Some c \<Rightarrow> (s2, [Submit (StartVideoCall c)])))"

definition startVideoCall_app_settled :: "app \<Rightarrow> bool \<Rightarrow> app \<times> effect list" where
  "startVideoCall_app_settled s ok = (s, [])"

definition handleCallAccepted :: "app \<Rightarrow> uint256 \<Rightarrow> app \<times> effect list" where
  "handleCallAccepted s callId = startVideoCall_app (s\<lparr>currentCallId := Some callId\<rparr>)"

definition sendSignalingData :: "browser \<Rightarrow> app \<Rightarrow> app \<times> effect list" where
  "sendSignalingData b s =
     (case currentCallId s of
        None \<Rightarrow> (s, [])
      | Some c \<Rightarrow> (s, [Submit (UpdateSignalingData c (random_data b))]))"

definition sendSignalingData_resume :: "app \<Rightarrow> bool \<Rightarrow> app \<times> effect list" where
  "sendSignalingData_resume s ok = (s, [])"

subsection \<open>Listeners\<close>

text \<open>
  \<open>setupContractListeners\<close> subscribes to four of the contract's events; the others
  have no listener. The two callbacks that \<open>initializeWebRTC\<close> installs on the peer
  connection are \<open>ontrack\<close> and \<open>onicecandidate\<close>.
\<close>

fun setupContractListeners :: "browser \<Rightarrow> app \<Rightarrow> event \<Rightarrow> app \<times> effect list" where
  "setupContractListeners b s (CallInvited frm to inviteId) =
     (if to = userAddress s then (showIncomingCall s frm inviteId, []) else (s, []))"
| "setupContractListeners b s (CallAccepted frm to callId) =
     (if frm = userAddress s then handleCallAccepted s callId else (s, []))"
| "setupContractListeners b s (CallStarted callId ini rcp) =
     (if ini = userAddress s \<or> rcp = userAddress s then handleCallStarted b s callId else (s, []))"
| "setupContractListeners b s (CallEnded callId duration) =
     (if currentCallId s = Some callId then handleCallEnded s duration else (s, []))"
| "setupContractListeners b s _ = (s, [])"

definition ontrack :: "app \<Rightarrow> stream \<Rightarrow> app \<times> effect list" where
  "ontrack s st = (s\<lparr>remoteStream := Some st\<rparr>, [])"

definition onicecandidate :: "browser \<Rightarrow> app \<Rightarrow> bool \<Rightarrow> app \<times> effect list" where
  "onicecandidate b s candidate = (if candidate then sendSignalingData b s else (s, []))"

subsection \<open>The event loop\<close>

text \<open>
  One \<open>input\<close> is one task of the single-threaded event loop: a contract event
  delivered to its listener, a click, a callback of the peer connection, or the
  settlement of a request that an earlier task left pending.
\<close>

datatype input =
    Ledger event
  | SelectContact address
  | ClickCall
  | ClickAccept
  | ClickDecline
  | ClickEnd
  | ClickMute
  | ClickVideo
  | InviteSettled bool
  | AcceptSettled bool
  | DeclineSettled bool
  | EndSettled bool
  | MediaSettled "stream option"
  | StartSettled bool
  | SignalingSettled bool
  | RemoteTrack stream
  | IceCandidate bool

fun step :: "browser \<Rightarrow> app \<Rightarrow> input \<Rightarrow> app \<times> effect list" where
  "step b s (Ledger ev) = setupContractListeners b s ev"
| "step b s (SelectContact a) = (selectContact s a, [])"
| "step b s ClickCall = initiateCall b s"
| "step b s ClickAccept = acceptInvite b s"
| "step b s ClickDecline = declineInvite s"
| "step b s ClickEnd = endCall s"
| "step b s ClickMute = toggleMute s"
| "step b s ClickVideo = toggleVideo s"
| "step b s (InviteSettled ok) = initiateCall_resume s ok"
| "step b s (AcceptSettled ok) = acceptInvite_resume s ok"
| "step b s (DeclineSettled ok) = declineInvite_resume s ok"
| "step b s (EndSettled ok) = endCall_resume s ok"
| "step b s (MediaSettled media) = startVideoCall_app_resume s media"
| "step b s (StartSettled ok) = startVideoCall_app_settled s ok"
| "step b s (SignalingSettled ok) = sendSignalingData_resume s ok"
| "step b s (RemoteTrack st) = ontrack s st"
| "step b s (IceCandidate c) = onicecandidate b s c"

fun run_app :: "app \<Rightarrow> (browser \<times> input) list \<Rightarrow> app \<times> effect list" where
  "run_app s [] = (s, [])"
| "run_app s ((b, i) # rest) =
     (let (s1, e1) = step b s i; (s2, e2) = run_app s1 rest in (s2, e1 @ e2))"

fun submitted :: "effect list \<Rightarrow> call list" where
  "submitted [] = []"
| "submitted (Submit c # es) = c # submitted es"
| "submitted (_ # es) = submitted es"

subsection \<open>The invariant of the specification\<close>

text \<open>
  The data model of the specification gives the coordinator a \<open>phase\<close> and relates it
  to the two identifiers. \<open>spec_invariant ph s\<close> is that relation, in the
  specification's words, for a candidate phase \<open>ph\<close> of the object \<open>s\<close>.
\<close>

datatype CallPhase = Idle | IncomingInvite | OutgoingInvite | Starting | Connected | Ending

definition spec_invariant :: "CallPhase \<Rightarrow> app \<Rightarrow> bool" where
  "spec_invariant ph s =
     (((currentCallId s \<noteq> None) = (ph = Starting \<or> ph = Connected)) \<and>
      (currentInviteId s \<noteq> None \<longrightarrow> ph = IncomingInvite))"

section \<open>Observations used by the statements\<close>

text \<open>
  \<open>startedFor\<close> recognises the \<open>CallStarted\<close> events of one call;
  \<open>activeParticipant\<close> is the conjunction of the two modifiers and the
  \<open>isActive\<close> test that the three call operations share; \<open>responded\<close> is the
  negation of the condition both invitation responses require; \<open>recreates\<close> holds of
  an \<open>inviteToCall\<close> transaction whose derived identifier is the given one.
\<close>

fun startedFor :: "uint256 \<Rightarrow> event \<Rightarrow> bool" where
  "startedFor cid (CallStarted c _ _) = (c = cid)"
| "startedFor cid _ = False"

definition activeParticipant :: "ledger \<Rightarrow> env \<Rightarrow> uint256 \<Rightarrow> bool" where
  "activeParticipant s e callId =
     (callExists s callId \<and> onlyCallParticipant s e callId \<and> isActive (videoCalls s callId))"

definition responded :: "ledger \<Rightarrow> bytes32 \<Rightarrow> bool" where
  "responded s inviteId =
     (isAccepted (callInvitations s inviteId) \<or> isDeclined (callInvitations s inviteId))"

fun recreates ::
  "(address \<Rightarrow> address \<Rightarrow> uint256 \<Rightarrow> bytes32) \<Rightarrow> bytes32 \<Rightarrow> env \<times> call \<Rightarrow> bool" where
  "recreates H inviteId (e, InviteToCall r k) =
     (H (msg_sender e) r (block_timestamp e) = inviteId)"
| "recreates H inviteId (e, _) = False"

section \<open>Concrete runs\<close>

text \<open>
  A small history on which the theorems are exercised: the deployer is address 9, users
  1 and 2 register, 1 invites 2 at time 12, and 2 accepts (or declines) in the same
  block. \<open>sample_digest\<close> stands in for the hash in these runs only; it sends
  (1, 2, 12) to 3105.
\<close>

definition sample_digest :: "address \<Rightarrow> address \<Rightarrow> uint256 \<Rightarrow> bytes32" where
  "sample_digest a b t = ucast a + 16 * ucast b + 256 * t"

definition at :: "address \<Rightarrow> uint256 \<Rightarrow> env" where
  "at a t = \<lparr>msg_sender = a, block_timestamp = t\<rparr>"

definition ledger_registered :: ledger where
  "ledger_registered = fst (run_ledger sample_digest (constructor 9)
     [(at 1 10, RegisterUser 5 1), (at 2 11, RegisterUser 6 1)])"

definition ledger_invited :: ledger where
  "ledger_invited = fst (transact sample_digest ledger_registered (at 1 12, InviteToCall 2 77))"

definition ledger_accepted :: ledger where
  "ledger_accepted = fst (transact sample_digest ledger_invited (at 2 12, AcceptCallInvitation 3105 88 99))"

definition ledger_started :: ledger where
  "ledger_started = fst (transact sample_digest ledger_accepted (at 1 20, StartVideoCall 1))"

definition ledger_declined :: ledger where
  "ledger_declined = fst (transact sample_digest ledger_invited (at 2 12, DeclineCallInvitation 3105))"

definition ledger_reinvited :: ledger where
  "ledger_reinvited = fst (transact sample_digest ledger_declined (at 1 12, InviteToCall 2 78))"

text \<open>
  For the coordinator: the client of user 1 receives an invitation from user 3, then the
  acceptance by user 2 of a call it placed, captures its media, starts call 7 and
  receives the remote stream.
\<close>

definition browser0 :: browser where
  "browser0 = \<lparr>date_now = 1000, timer_id = 1, random_key = 3, random_data = 4\<rparr>"

definition app_invited_and_called :: app where
  "app_invited_and_called = fst (run_app (PrivateVideoCallApp 1)
     [(browser0, Ledger (CallInvited 3 1 55)), (browser0, Ledger (CallAccepted 1 2 7))])"

definition app_in_call :: app where
  "app_in_call = fst (run_app app_invited_and_called
     [(browser0, MediaSettled (Some 8)), (browser0, StartSettled True),
      (browser0, Ledger (CallStarted 7 1 2)), (browser0, RemoteTrack 9)])"

section \<open>Properties of the ledger contract\<close>

subsection \<open>Auxiliary facts\<close>

lemmas op_defs = registerUser_def updateUserStatus_def inviteToCall_def acceptCallInvitation_def
  declineCallInvitation_def startVideoCall_def updateSignalingData_def endVideoCall_def
  addTrustedContact_def blockUser_def unblockUser_def

lemmas fixture_defs = ledger_registered_def ledger_invited_def ledger_accepted_def ledger_declined_def ledger_started_def ledger_reinvited_def at_def
  sample_digest_def constructor_def transact_def zeroUserProfile_def zeroVideoCall_def
  zeroCallInvitation_def onlyRegistered_def callExists_def onlyCallParticipant_def

lemma word_less_succ: "(c::'a::len word) < n \<Longrightarrow> n \<noteq> - 1 \<Longrightarrow> c < n + 1"
proof -
  assume a: "c < n" and b: "n \<noteq> - 1"
  have "1 + n \<noteq> 0"
  proof
    assume "1 + n = 0"
    then have "n + 1 = 0" by (simp add: add.commute)
    then have "n = - 1" by (rule max_word_wrap)
    with b show False by simp
  qed
  then have "unat (1 + n) = Suc (unat n)" by (rule unatSuc)
  with a show ?thesis by (simp add: word_less_nat_alt add.commute)
qed

lemma dispatch_connected:
  assumes "dispatch H s e c = Inr (s', ev)" "cid < nextCallId s" "isConnected (videoCalls s cid)"
  shows "cid < nextCallId s' \<and> isConnected (videoCalls s' cid)"
  using assms
  by (cases c) (auto simp: op_defs Let_def word_less_succ split: if_splits)

lemma dispatch_started_event:
  assumes "dispatch H s e c = Inr (s', ev)" "CallStarted cid a b \<in> set ev"
  shows "c = StartVideoCall cid \<and> cid < nextCallId s \<and> \<not> isConnected (videoCalls s cid) \<and> isConnected (videoCalls s' cid) \<and> ev = [CallStarted cid a b] \<and> cid < nextCallId s'"
  using assms
  by (cases c) (auto simp: op_defs Let_def callExists_def split: if_splits)

lemma transact_connected:
  assumes "cid < nextCallId s" "isConnected (videoCalls s cid)"
  shows "cid < nextCallId (fst (transact H s tx)) \<and> isConnected (videoCalls (fst (transact H s tx)) cid)"
proof (cases "dispatch H s (fst tx) (snd tx)")
  case (Inl a)
  then show ?thesis using assms by (simp add: transact_def)
next
  case (Inr r)
  then show ?thesis using assms dispatch_connected [of H s "fst tx" "snd tx" "fst r" "snd r" cid]
    by (simp add: transact_def)
qed

lemma run_ledger_connected:
  "cid < nextCallId s \<Longrightarrow> isConnected (videoCalls s cid) \<Longrightarrow>
   cid < nextCallId (fst (run_ledger H s txs)) \<and> isConnected (videoCalls (fst (run_ledger H s txs)) cid)"
proof (induction txs arbitrary: s)
  case Nil
  then show ?case by simp
next
  case (Cons tx txs)
  from transact_connected [OF Cons.prems, of H tx]
  have "cid < nextCallId (fst (run_ledger H (fst (transact H s tx)) txs)) \<and>
        isConnected (videoCalls (fst (run_ledger H (fst (transact H s tx)) txs)) cid)"
    using Cons.IH by blast
  then show ?case by (simp add: split_beta Let_def)
qed

lemma startedFor_iff: "startedFor cid ev \<longleftrightarrow> (\<exists>a b. ev = CallStarted cid a b)"
  by (cases ev) auto

lemma transact_started:
  assumes "ev \<in> set (snd (transact H s tx))" "startedFor cid ev"
  shows "\<not> isConnected (videoCalls s cid) \<and> cid < nextCallId (fst (transact H s tx)) \<and>
         isConnected (videoCalls (fst (transact H s tx)) cid) \<and> snd (transact H s tx) = [ev]"
proof (cases "dispatch H s (fst tx) (snd tx)")
  case (Inl a)
  then show ?thesis using assms by (simp add: transact_def)
next
  case (Inr r)
  from assms(2) obtain a b where ev: "ev = CallStarted cid a b"
    by (auto simp: startedFor_iff)
  from Inr have d: "dispatch H s (fst tx) (snd tx) = Inr (fst r, snd r)" by simp
  from Inr assms(1) ev have "CallStarted cid a b \<in> set (snd r)" by (simp add: transact_def)
  from dispatch_started_event [OF d this] Inr ev show ?thesis by (simp add: transact_def)
qed

lemma no_start_once_connected:
  "cid < nextCallId s \<Longrightarrow> isConnected (videoCalls s cid) \<Longrightarrow>
   filter (startedFor cid) (snd (run_ledger H s txs)) = []"
proof (induction txs arbitrary: s)
  case Nil
  then show ?case by simp
next
  case (Cons tx txs)
  have here: "filter (startedFor cid) (snd (transact H s tx)) = []"
    using transact_started [of _ H s tx cid] Cons.prems(2) by (auto simp: filter_empty_conv)
  have rest: "filter (startedFor cid) (snd (run_ledger H (fst (transact H s tx)) txs)) = []"
    using Cons.IH transact_connected [OF Cons.prems, of H tx] by blast
  from here rest show ?case by (simp add: split_beta Let_def)
qed

lemma started_at_most_once:
  "length (filter (startedFor cid) (snd (run_ledger H s txs))) \<le> 1"
proof (induction txs arbitrary: s)
  case Nil
  then show ?case by simp
next
  case (Cons tx txs)
  show ?case
  proof (cases "\<exists>ev \<in> set (snd (transact H s tx)). startedFor cid ev")
    case True
    then obtain ev where ev: "ev \<in> set (snd (transact H s tx))" "startedFor cid ev" by blast
    from transact_started [OF ev]
    have c: "cid < nextCallId (fst (transact H s tx))"
         "isConnected (videoCalls (fst (transact H s tx)) cid)"
         "snd (transact H s tx) = [ev]" by simp_all
    from no_start_once_connected [OF c(1) c(2), of H txs] c(3) ev(2)
    show ?thesis by (simp add: split_beta Let_def)
  next
    case False
    then have "filter (startedFor cid) (snd (transact H s tx)) = []"
      by (auto simp: filter_empty_conv)
    with Cons.IH [of "fst (transact H s tx)"] show ?thesis by (simp add: split_beta Let_def)
  qed
qed

lemma dispatch_keeps_invitation:
  assumes "dispatch H s e c = Inr (s', ev)" "responded s i" "\<not> recreates H i (e, c)"
  shows "callInvitations s' i = callInvitations s i"
  using assms
  by (cases c) (auto simp: op_defs Let_def responded_def split: if_splits)

lemma transact_keeps_invitation:
  assumes "responded s i" "\<not> recreates H i tx"
  shows "callInvitations (fst (transact H s tx)) i = callInvitations s i"
proof (cases "dispatch H s (fst tx) (snd tx)")
  case (Inl a)
  then show ?thesis by (simp add: transact_def)
next
  case (Inr r)
  then have "dispatch H s (fst tx) (snd tx) = Inr (fst r, snd r)" by simp
  from dispatch_keeps_invitation [OF this assms(1)] assms(2) Inr
  show ?thesis by (simp add: transact_def)
qed

lemma run_ledger_keeps_invitation:
  "responded s i \<Longrightarrow> \<forall>tx \<in> set txs. \<not> recreates H i tx \<Longrightarrow>
   callInvitations (fst (run_ledger H s txs)) i = callInvitations s i"
proof (induction txs arbitrary: s)
  case Nil
  then show ?case by simp
next
  case (Cons tx txs)
  from Cons.prems have keep: "callInvitations (fst (transact H s tx)) i = callInvitations s i"
    by (simp add: transact_keeps_invitation)
  with Cons.prems(1) have "responded (fst (transact H s tx)) i" by (simp add: responded_def)
  from Cons.IH [OF this] Cons.prems(2) keep show ?case by (simp add: split_beta Let_def)
qed

lemma responded_blocks:
  assumes "responded s i"
  shows "isl (acceptCallInvitation s e i k d)" "isl (declineCallInvitation s e i)"
    "transact H s (e, AcceptCallInvitation i k d) = (s, [])"
    "transact H s (e, DeclineCallInvitation i) = (s, [])"
    "onlyRegistered s e \<Longrightarrow> inv_to (callInvitations s i) = msg_sender e \<Longrightarrow>
       acceptCallInvitation s e i k d = Inl InvitationAlreadyResponded"
    "onlyRegistered s e \<Longrightarrow> inv_to (callInvitations s i) = msg_sender e \<Longrightarrow>
       declineCallInvitation s e i = Inl InvitationAlreadyResponded"
  using assms
  by (auto simp: acceptCallInvitation_def declineCallInvitation_def transact_def Let_def
        responded_def)

lemma response_guards:
  "\<not> onlyRegistered s e \<Longrightarrow> acceptCallInvitation s e i k d = Inl UserNotRegistered"
  "\<not> onlyRegistered s e \<Longrightarrow> declineCallInvitation s e i = Inl UserNotRegistered"
  "onlyRegistered s e \<Longrightarrow> inv_to (callInvitations s i) \<noteq> msg_sender e \<Longrightarrow>
     acceptCallInvitation s e i k d = Inl NotYourInvitation"
  "onlyRegistered s e \<Longrightarrow> inv_to (callInvitations s i) \<noteq> msg_sender e \<Longrightarrow>
     declineCallInvitation s e i = Inl NotYourInvitation"
  by (simp_all add: acceptCallInvitation_def declineCallInvitation_def Let_def)

subsection \<open>Facts about the concrete runs\<close>

lemma accepted_call:
  "videoCalls ledger_accepted 1 = \<lparr>initiator = 1, recipient = 2, encryptedCallKey = 88,
     encryptedSignalingData = 99, isActive = True, isConnected = False,
     startTime = 12, endTime = 0, encryptedMetadata = 0\<rparr>"
  "nextCallId ledger_accepted = 2"
  by (simp_all add: fixture_defs op_defs Let_def)

lemma declined_inv:
  "callInvitations ledger_declined 3105 = \<lparr>inv_from = 1, inv_to = 2, encryptedInviteKey = 77,
     timestamp = 12, isAccepted = False, isDeclined = True\<rparr>"
  "isRegistered (userProfiles ledger_declined 2)"
  "isRegistered (userProfiles ledger_declined 1)"
  "\<not> isRegistered (userProfiles ledger_declined 3)"
  by (simp_all add: fixture_defs op_defs Let_def)

lemma reinvited_inv:
  "callInvitations ledger_reinvited 3105 = \<lparr>inv_from = 1, inv_to = 2, encryptedInviteKey = 78,
     timestamp = 12, isAccepted = False, isDeclined = False\<rparr>"
  "isRegistered (userProfiles ledger_reinvited 2)" "nextCallId ledger_reinvited = 1"
  by (simp_all add: fixture_defs op_defs Let_def)

lemma invited_step:
  "inviteToCall sample_digest ledger_registered (at 1 12) 2 77 = Inr (ledger_invited, [CallInvited 1 2 3105])"
  by (simp add: fixture_defs op_defs Let_def)

lemma declined_step:
  "dispatch sample_digest ledger_invited (at 2 12) (DeclineCallInvitation 3105)
     = Inr (ledger_declined, [CallDeclined 1 2 3105])"
  by (simp add: fixture_defs op_defs Let_def)

lemma reinvited_step:
  "inviteToCall sample_digest ledger_declined (at 1 12) 2 78 = Inr (ledger_reinvited, [CallInvited 1 2 3105])"
  by (simp add: fixture_defs op_defs Let_def)

lemma started_step:
  "startVideoCall ledger_accepted (at 1 20) 1 = Inr (ledger_started, [CallStarted 1 1 2])"
  by (simp add: fixture_defs op_defs Let_def)

subsection \<open>Responding to an invitation\<close>

text \<open>
  Claim C3, as the specification states it: for every invitation record at most one of
  \<open>acceptCallInvitation\<close> and \<open>declineCallInvitation\<close> succeeds, and after either has
  succeeded every later accept or decline for the same \<open>inviteId\<close> fails with the
  already-responded error.

  The contract does not do this in two respects. A caller who is not the recipient is
  turned away by the earlier \<open>require\<close> (\<open>Not your invitation\<close>), not by the
  already-responded one. And \<open>inviteToCall\<close> writes \<open>callInvitations[inviteId]\<close>
  without looking at what is there: when user 1 invites user 2 again in the block in
  which 2 declined, the identifier is the same, both flags are \<open>false\<close> again, and
  both an accept and a decline by 2 succeed.
\<close>

theorem invitation_answered_once_counterexample:
  "dispatch sample_digest ledger_invited (at 2 12) (DeclineCallInvitation 3105)
     = Inr (ledger_declined, [CallDeclined 1 2 3105]) \<and>
   acceptCallInvitation ledger_declined (at 1 12) 3105 88 99 = Inl NotYourInvitation \<and>
   ledger_reinvited = fst (transact sample_digest ledger_declined (at 1 12, InviteToCall 2 78)) \<and>
   \<not> isl (acceptCallInvitation ledger_reinvited (at 2 12) 3105 88 99) \<and>
   \<not> isl (declineCallInvitation ledger_reinvited (at 2 12) 3105)"
proof (intro conjI)
  show "dispatch sample_digest ledger_invited (at 2 12) (DeclineCallInvitation 3105)
     = Inr (ledger_declined, [CallDeclined 1 2 3105])" by (rule declined_step)
  show "acceptCallInvitation ledger_declined (at 1 12) 3105 88 99 = Inl NotYourInvitation"
    by (simp add: declined_inv acceptCallInvitation_def onlyRegistered_def at_def Let_def)
  show "ledger_reinvited = fst (transact sample_digest ledger_declined (at 1 12, InviteToCall 2 78))"
    by (rule ledger_reinvited_def)
  show "\<not> isl (acceptCallInvitation ledger_reinvited (at 2 12) 3105 88 99)"
    by (simp add: reinvited_inv acceptCallInvitation_def onlyRegistered_def at_def Let_def)
  show "\<not> isl (declineCallInvitation ledger_reinvited (at 2 12) 3105)"
    by (simp add: reinvited_inv declineCallInvitation_def onlyRegistered_def at_def Let_def)
qed

text \<open>
  Claim C3, amended: a successful accept sets \<open>isAccepted\<close> and a successful decline
  sets \<open>isDeclined\<close>, never both. From then on, through every sequence of transactions
  none of which is an \<open>inviteToCall\<close> deriving the same \<open>inviteId\<close>, the invitation
  record stays as it is and every accept or decline for that \<open>inviteId\<close>, by any
  caller, reverts and leaves the storage unchanged. The revert is the already-responded
  one when the caller is registered and is the invitation's recipient, the
  not-registered one when the caller is not registered, and the not-your-invitation one
  when the caller is registered and is not the recipient.
\<close>

theorem invitation_answered_once:
  assumes first: "dispatch H s0 e0 c0 = Inr (s, ev0)"
    and kind: "c0 = AcceptCallInvitation i k0 d0 \<or> c0 = DeclineCallInvitation i"
    and later: "\<forall>tx \<in> set txs. \<not> recreates H i tx"
  shows "isAccepted (callInvitations s i) = (c0 = AcceptCallInvitation i k0 d0) \<and>
         isDeclined (callInvitations s i) = (c0 = DeclineCallInvitation i) \<and>
         callInvitations (fst (run_ledger H s txs)) i = callInvitations s i \<and>
         (\<forall>e k d.
            isl (acceptCallInvitation (fst (run_ledger H s txs)) e i k d) \<and>
            isl (declineCallInvitation (fst (run_ledger H s txs)) e i) \<and>
            transact H (fst (run_ledger H s txs)) (e, AcceptCallInvitation i k d)
              = (fst (run_ledger H s txs), []) \<and>
            transact H (fst (run_ledger H s txs)) (e, DeclineCallInvitation i)
              = (fst (run_ledger H s txs), []) \<and>
            (onlyRegistered (fst (run_ledger H s txs)) e \<and>
             inv_to (callInvitations (fst (run_ledger H s txs)) i) = msg_sender e \<longrightarrow>
               acceptCallInvitation (fst (run_ledger H s txs)) e i k d
                 = Inl InvitationAlreadyResponded \<and>
               declineCallInvitation (fst (run_ledger H s txs)) e i
                 = Inl InvitationAlreadyResponded) \<and>
            (\<not> onlyRegistered (fst (run_ledger H s txs)) e \<longrightarrow>
               acceptCallInvitation (fst (run_ledger H s txs)) e i k d
                 = Inl UserNotRegistered \<and>
               declineCallInvitation (fst (run_ledger H s txs)) e i
                 = Inl UserNotRegistered) \<and>
            (onlyRegistered (fst (run_ledger H s txs)) e \<and>
             inv_to (callInvitations (fst (run_ledger H s txs)) i) \<noteq> msg_sender e \<longrightarrow>
               acceptCallInvitation (fst (run_ledger H s txs)) e i k d
                 = Inl NotYourInvitation \<and>
               declineCallInvitation (fst (run_ledger H s txs)) e i
                 = Inl NotYourInvitation))"
proof -
  from first kind
  have flags: "isAccepted (callInvitations s i) = (c0 = AcceptCallInvitation i k0 d0)"
              "isDeclined (callInvitations s i) = (c0 = DeclineCallInvitation i)"
    by (auto simp: acceptCallInvitation_def declineCallInvitation_def Let_def split: if_splits)
  with kind have r: "responded s i" by (auto simp: responded_def)
  from run_ledger_keeps_invitation [OF r later]
  have keep: "callInvitations (fst (run_ledger H s txs)) i = callInvitations s i" .
  with r have r': "responded (fst (run_ledger H s txs)) i" by (simp add: responded_def)
  have blocked: "\<forall>e k d.
      isl (acceptCallInvitation (fst (run_ledger H s txs)) e i k d) \<and>
      isl (declineCallInvitation (fst (run_ledger H s txs)) e i) \<and>
      transact H (fst (run_ledger H s txs)) (e, AcceptCallInvitation i k d)
        = (fst (run_ledger H s txs), []) \<and>
      transact H (fst (run_ledger H s txs)) (e, DeclineCallInvitation i)
        = (fst (run_ledger H s txs), []) \<and>
      (onlyRegistered (fst (run_ledger H s txs)) e \<and>
       inv_to (callInvitations (fst (run_ledger H s txs)) i) = msg_sender e \<longrightarrow>
         acceptCallInvitation (fst (run_ledger H s txs)) e i k d
           = Inl InvitationAlreadyResponded \<and>
         declineCallInvitation (fst (run_ledger H s txs)) e i
           = Inl InvitationAlreadyResponded)"
    using responded_blocks [OF r'] by blast
  have guards: "\<forall>e k d.
      (\<not> onlyRegistered (fst (run_ledger H s txs)) e \<longrightarrow>
         acceptCallInvitation (fst (run_ledger H s txs)) e i k d = Inl UserNotRegistered \<and>
         declineCallInvitation (fst (run_ledger H s txs)) e i = Inl UserNotRegistered) \<and>
      (onlyRegistered (fst (run_ledger H s txs)) e \<and>
       inv_to (callInvitations (fst (run_ledger H s txs)) i) \<noteq> msg_sender e \<longrightarrow>
         acceptCallInvitation (fst (run_ledger H s txs)) e i k d = Inl NotYourInvitation \<and>
         declineCallInvitation (fst (run_ledger H s txs)) e i = Inl NotYourInvitation)"
    by (simp add: response_guards)
  from flags keep blocked guards show ?thesis by blast
qed

theorem invitation_answered_once_witness:
  "dispatch sample_digest ledger_invited (at 2 12) (DeclineCallInvitation 3105)
     = Inr (ledger_declined, [CallDeclined 1 2 3105]) \<and>
   isDeclined (callInvitations ledger_declined 3105) \<and> \<not> isAccepted (callInvitations ledger_declined 3105) \<and>
   acceptCallInvitation (fst (run_ledger sample_digest ledger_declined [(at 1 13, InviteToCall 2 5)]))
     (at 2 14) 3105 88 99 = Inl InvitationAlreadyResponded \<and>
   transact sample_digest (fst (run_ledger sample_digest ledger_declined [(at 1 13, InviteToCall 2 5)]))
     (at 1 14, DeclineCallInvitation 3105)
     = (fst (run_ledger sample_digest ledger_declined [(at 1 13, InviteToCall 2 5)]), []) \<and>
   declineCallInvitation (fst (run_ledger sample_digest ledger_declined [(at 1 13, InviteToCall 2 5)]))
     (at 1 14) 3105 = Inl NotYourInvitation \<and>
   acceptCallInvitation (fst (run_ledger sample_digest ledger_declined [(at 1 13, InviteToCall 2 5)]))
     (at 3 14) 3105 88 99 = Inl UserNotRegistered"
proof -
  have later: "\<forall>tx \<in> set [(at 1 13, InviteToCall 2 5)]. \<not> recreates sample_digest 3105 tx"
    by (simp add: at_def sample_digest_def)
  have kind: "DeclineCallInvitation 3105 = AcceptCallInvitation 3105 0 0 \<or>
              DeclineCallInvitation 3105 = DeclineCallInvitation 3105" by simp
  note t = invitation_answered_once [OF declined_step kind later]
  have reg: "onlyRegistered (fst (run_ledger sample_digest ledger_declined [(at 1 13, InviteToCall 2 5)])) (at 2 14)"
    "onlyRegistered (fst (run_ledger sample_digest ledger_declined [(at 1 13, InviteToCall 2 5)])) (at 1 14)"
    "\<not> onlyRegistered (fst (run_ledger sample_digest ledger_declined [(at 1 13, InviteToCall 2 5)])) (at 3 14)"
    by (simp_all add: fixture_defs op_defs Let_def)
  from t have inv: "callInvitations (fst (run_ledger sample_digest ledger_declined [(at 1 13, InviteToCall 2 5)])) 3105
      = callInvitations ledger_declined 3105" by blast
  have v: "inv_to (callInvitations ledger_declined 3105) = 2" by (simp add: declined_inv)
  have ms: "msg_sender (at 2 14) = 2" "msg_sender (at 1 14) = 1" by (simp_all add: at_def)
  have to: "inv_to (callInvitations (fst (run_ledger sample_digest ledger_declined [(at 1 13, InviteToCall 2 5)])) 3105)
      = msg_sender (at 2 14)"
    "inv_to (callInvitations (fst (run_ledger sample_digest ledger_declined [(at 1 13, InviteToCall 2 5)])) 3105)
      \<noteq> msg_sender (at 1 14)"
    unfolding inv v ms by simp_all
  have flags: "isDeclined (callInvitations ledger_declined 3105)" "\<not> isAccepted (callInvitations ledger_declined 3105)"
    by (simp_all add: declined_inv)
  from t reg(1) to(1)
  have a: "acceptCallInvitation (fst (run_ledger sample_digest ledger_declined [(at 1 13, InviteToCall 2 5)]))
     (at 2 14) 3105 88 99 = Inl InvitationAlreadyResponded" by blast
  from t
  have b: "transact sample_digest (fst (run_ledger sample_digest ledger_declined [(at 1 13, InviteToCall 2 5)]))
     (at 1 14, DeclineCallInvitation 3105)
     = (fst (run_ledger sample_digest ledger_declined [(at 1 13, InviteToCall 2 5)]), [])" by blast
  from t reg(2) to(2)
  have c: "declineCallInvitation (fst (run_ledger sample_digest ledger_declined [(at 1 13, InviteToCall 2 5)]))
     (at 1 14) 3105 = Inl NotYourInvitation" by blast
  from t reg(3)
  have d: "acceptCallInvitation (fst (run_ledger sample_digest ledger_declined [(at 1 13, InviteToCall 2 5)]))
     (at 3 14) 3105 88 99 = Inl UserNotRegistered" by blast
  from declined_step flags a b c d show ?thesis by blast
qed

subsection \<open>Participants of an active call\<close>

text \<open>
  Claim C8: \<open>startVideoCall\<close>, \<open>updateSignalingData\<close> and \<open>endVideoCall\<close> succeed
  only when the caller is the initiator or the recipient of an existing, active call;
  otherwise the operation fails and the storage, the call record with it, is unchanged.
\<close>

theorem call_operations_require_active_participant:
  "(\<forall>r. startVideoCall s e callId = Inr r \<or> updateSignalingData s e callId d = Inr r \<or>
        endVideoCall s e callId = Inr r \<longrightarrow> activeParticipant s e callId) \<and>
   (\<not> activeParticipant s e callId \<longrightarrow>
      isl (startVideoCall s e callId) \<and> isl (updateSignalingData s e callId d) \<and>
      isl (endVideoCall s e callId) \<and>
      transact H s (e, StartVideoCall callId) = (s, []) \<and>
      transact H s (e, UpdateSignalingData callId d) = (s, []) \<and>
      transact H s (e, EndVideoCall callId) = (s, []))"
  by (auto simp: activeParticipant_def startVideoCall_def updateSignalingData_def
        endVideoCall_def transact_def Let_def split: if_splits)

theorem call_operations_require_active_participant_witness:
  "activeParticipant ledger_accepted (at 2 20) 1 \<and>
   startVideoCall ledger_accepted (at 2 20) 1 =
     Inr (ledger_accepted\<lparr>videoCalls := (videoCalls ledger_accepted)(1 :=
            (videoCalls ledger_accepted 1)\<lparr>isConnected := True, startTime := 20\<rparr>)\<rparr>,
          [CallStarted 1 1 2]) \<and>
   \<not> activeParticipant ledger_accepted (at 3 20) 1 \<and>
   isl (startVideoCall ledger_accepted (at 3 20) 1) \<and>
   transact sample_digest ledger_accepted (at 3 20, EndVideoCall 1) = (ledger_accepted, [])"
  using call_operations_require_active_participant [of ledger_accepted "at 2 20" 1 0 sample_digest]
    call_operations_require_active_participant [of ledger_accepted "at 3 20" 1 0 sample_digest]
  by (simp add: accepted_call activeParticipant_def startVideoCall_def callExists_def
        onlyCallParticipant_def at_def Let_def)

subsection \<open>Two invitations in one block\<close>

text \<open>
  Claim C9: two successful \<open>inviteToCall\<close> calls with the same sender, recipient and
  block timestamp derive the same \<open>inviteId\<close> and emit the same event; the second
  replaces the record, with \<open>isAccepted\<close> and \<open>isDeclined\<close> both \<open>false\<close>, whatever
  the storage held before it, so the recipient can respond (again): a decline succeeds,
  and an accept succeeds unless \<open>nextCallId\<close> is at its maximum.
\<close>

theorem inviteToCall_same_block_overwrites:
  assumes "inviteToCall H s e r k = Inr (s1, ev1)"
    and "inviteToCall H s2 e r k' = Inr (s3, ev3)"
  shows "ev1 = [CallInvited (msg_sender e) r (H (msg_sender e) r (block_timestamp e))] \<and>
         ev3 = ev1 \<and>
         callInvitations s3 (H (msg_sender e) r (block_timestamp e)) =
           \<lparr>inv_from = msg_sender e, inv_to = r, encryptedInviteKey = k',
            timestamp = block_timestamp e, isAccepted = False, isDeclined = False\<rparr> \<and>
         (\<forall>t. \<not> isl (declineCallInvitation s3 \<lparr>msg_sender = r, block_timestamp = t\<rparr>
                   (H (msg_sender e) r (block_timestamp e)))) \<and>
         (\<forall>t ck sd. nextCallId s3 \<noteq> - 1 \<longrightarrow>
             \<not> isl (acceptCallInvitation s3 \<lparr>msg_sender = r, block_timestamp = t\<rparr>
                   (H (msg_sender e) r (block_timestamp e)) ck sd))"
  using assms
  by (auto simp: inviteToCall_def acceptCallInvitation_def declineCallInvitation_def
        onlyRegistered_def Let_def split: if_splits)

theorem inviteToCall_same_block_overwrites_witness:
  "inviteToCall sample_digest ledger_registered (at 1 12) 2 77 = Inr (ledger_invited, [CallInvited 1 2 3105]) \<and>
   isDeclined (callInvitations ledger_declined 3105) \<and>
   inviteToCall sample_digest ledger_declined (at 1 12) 2 78 = Inr (ledger_reinvited, [CallInvited 1 2 3105]) \<and>
   \<not> isDeclined (callInvitations ledger_reinvited 3105) \<and>
   \<not> isAccepted (callInvitations ledger_reinvited 3105) \<and>
   \<not> isl (declineCallInvitation ledger_reinvited (at 2 12) 3105) \<and>
   \<not> isl (acceptCallInvitation ledger_reinvited (at 2 12) 3105 88 99)"
proof -
  have d: "sample_digest (msg_sender (at 1 12)) 2 (block_timestamp (at 1 12)) = 3105"
    by (simp add: at_def sample_digest_def)
  note t = inviteToCall_same_block_overwrites [OF invited_step reinvited_step, unfolded d]
  have n: "nextCallId ledger_reinvited \<noteq> - 1" by (simp add: reinvited_inv)
  from t have r: "callInvitations ledger_reinvited 3105 =
      \<lparr>inv_from = msg_sender (at 1 12), inv_to = 2, encryptedInviteKey = 78,
       timestamp = block_timestamp (at 1 12), isAccepted = False, isDeclined = False\<rparr>"
    by blast
  from t have dec: "\<not> isl (declineCallInvitation ledger_reinvited \<lparr>msg_sender = 2, block_timestamp = 12\<rparr> 3105)"
    by blast
  from t n have acc: "\<not> isl (acceptCallInvitation ledger_reinvited \<lparr>msg_sender = 2, block_timestamp = 12\<rparr> 3105 88 99)"
    by blast
  have old: "isDeclined (callInvitations ledger_declined 3105)" by (simp add: declined_inv)
  from r have new: "\<not> isDeclined (callInvitations ledger_reinvited 3105)"
     "\<not> isAccepted (callInvitations ledger_reinvited 3105)" by simp_all
  from invited_step reinvited_step old new dec acc show ?thesis by (simp add: at_def)
qed

subsection \<open>Starting a call once\<close>

text \<open>
  Claim C10: over any sequence of transactions, from any storage, at most one
  \<open>CallStarted\<close> event is emitted for a \<open>callId\<close>. A successful \<open>startVideoCall\<close>
  sets \<open>isConnected\<close>; in every later storage the condition
  \<open>isActive && !isConnected\<close> is false, so every later \<open>startVideoCall\<close> for the
  \<open>callId\<close> fails (a participant's with the not-ready-or-already-connected error) and
  no further \<open>CallStarted\<close> for it is emitted.
\<close>

theorem startVideoCall_at_most_once:
  "length (filter (startedFor cid) (snd (run_ledger H s txs))) \<le> 1 \<and>
   (\<forall>s1 ev e. startVideoCall s e cid = Inr (s1, ev) \<longrightarrow>
      isConnected (videoCalls s1 cid) \<and>
      ev = [CallStarted cid (initiator (videoCalls s cid)) (recipient (videoCalls s cid))] \<and>
      (\<forall>later e'.
         \<not> (isActive (videoCalls (fst (run_ledger H s1 later)) cid) \<and>
            \<not> isConnected (videoCalls (fst (run_ledger H s1 later)) cid)) \<and>
         isl (startVideoCall (fst (run_ledger H s1 later)) e' cid) \<and>
         (onlyCallParticipant (fst (run_ledger H s1 later)) e' cid \<longrightarrow>
            startVideoCall (fst (run_ledger H s1 later)) e' cid = Inl CallNotReadyOrAlreadyConnected) \<and>
         filter (startedFor cid) (snd (run_ledger H s1 later)) = []))"
proof (intro conjI allI impI)
  show "length (filter (startedFor cid) (snd (run_ledger H s txs))) \<le> 1"
    by (rule started_at_most_once)
next
  fix s1 ev e
  assume ok: "startVideoCall s e cid = Inr (s1, ev)"
  then have d: "dispatch H s e (StartVideoCall cid) = Inr (s1, ev)" by simp
  from ok show "isConnected (videoCalls s1 cid)"
    by (auto simp: startVideoCall_def Let_def split: if_splits)
  from ok show "ev = [CallStarted cid (initiator (videoCalls s cid)) (recipient (videoCalls s cid))]"
    by (auto simp: startVideoCall_def Let_def split: if_splits)
  from ok have c: "cid < nextCallId s1" "isConnected (videoCalls s1 cid)"
    by (auto simp: startVideoCall_def Let_def callExists_def split: if_splits)
  fix later e'
  from run_ledger_connected [OF c, of H later]
  have l: "cid < nextCallId (fst (run_ledger H s1 later))"
          "isConnected (videoCalls (fst (run_ledger H s1 later)) cid)" by simp_all
  from l show "\<not> (isActive (videoCalls (fst (run_ledger H s1 later)) cid) \<and>
            \<not> isConnected (videoCalls (fst (run_ledger H s1 later)) cid))" by simp
  from l show "isl (startVideoCall (fst (run_ledger H s1 later)) e' cid)"
    by (simp add: startVideoCall_def Let_def)
  show "filter (startedFor cid) (snd (run_ledger H s1 later)) = []"
    by (rule no_start_once_connected [OF c])
  assume "onlyCallParticipant (fst (run_ledger H s1 later)) e' cid"
  with l show "startVideoCall (fst (run_ledger H s1 later)) e' cid = Inl CallNotReadyOrAlreadyConnected"
    by (simp add: startVideoCall_def Let_def callExists_def)
qed

theorem startVideoCall_at_most_once_witness:
  "startVideoCall ledger_accepted (at 1 20) 1 = Inr (ledger_started, [CallStarted 1 1 2]) \<and>
   isConnected (videoCalls ledger_started 1) \<and>
   startVideoCall (fst (run_ledger sample_digest ledger_started [(at 2 21, UpdateSignalingData 1 7)]))
     (at 2 22) 1 = Inl CallNotReadyOrAlreadyConnected \<and>
   length (filter (startedFor 1) (snd (run_ledger sample_digest ledger_accepted
     [(at 1 20, StartVideoCall 1), (at 2 21, StartVideoCall 1)]))) \<le> 1"
proof -
  note t = startVideoCall_at_most_once [of 1 sample_digest ledger_accepted
     "[(at 1 20, StartVideoCall 1), (at 2 21, StartVideoCall 1)]"]
  have p: "onlyCallParticipant (fst (run_ledger sample_digest ledger_started [(at 2 21, UpdateSignalingData 1 7)]))
     (at 2 22) 1"
    by (simp add: fixture_defs op_defs Let_def)
  from t started_step p show ?thesis by blast
qed

section \<open>Properties of the coordinator\<close>

subsection \<open>Auxiliary facts\<close>

lemmas app_defs = showIncomingCall_def hideIncomingCall_def startCallTimer_def
  handleCallStarted_def cleanup_def handleCallEnded_def initializeWebRTC_def selectContact_def
  toggleMute_def toggleVideo_def initiateCall_def initiateCall_resume_def acceptInvite_def
  acceptInvite_resume_def declineInvite_def declineInvite_resume_def endCall_def
  endCall_resume_def startVideoCall_app_def startMediaCapture_resume_def
  startVideoCall_app_resume_def startVideoCall_app_settled_def handleCallAccepted_def
  sendSignalingData_def sendSignalingData_resume_def ontrack_def onicecandidate_def

lemma app_invited_and_called_eval:
  "app_invited_and_called = \<lparr>userAddress = 1, localStream = None, remoteStream = None,
     peerConnection = None, currentCallId = Some 7, currentInviteId = Some 55,
     callStartTime = None, durationInterval = None, selectedContact = None\<rparr>"
  by (simp add: app_invited_and_called_def PrivateVideoCallApp_def app_defs)

lemma app_in_call_eval:
  "app_in_call = \<lparr>userAddress = 1, localStream = Some 8, remoteStream = Some 9,
     peerConnection = Some (RTCPeerConnection (Some 8)), currentCallId = Some 7,
     currentInviteId = Some 55, callStartTime = Some 1000, durationInterval = Some 1,
     selectedContact = None\<rparr>"
  by (simp add: app_in_call_def app_invited_and_called_eval browser0_def app_defs Let_def)

lemma step_start_time:
  assumes "callStartTime s \<noteq> None \<longrightarrow> currentCallId s \<noteq> None"
  shows "callStartTime (fst (step b s i)) \<noteq> None \<longrightarrow> currentCallId (fst (step b s i)) \<noteq> None"
proof (cases i)
  case (Ledger ev)
  then show ?thesis using assms
    by (cases ev) (auto simp: app_defs Let_def split: option.splits if_splits)
qed (use assms in \<open>auto simp: app_defs Let_def split: option.splits if_splits\<close>)

lemma run_app_start_time:
  "callStartTime s \<noteq> None \<longrightarrow> currentCallId s \<noteq> None \<Longrightarrow>
   callStartTime (fst (run_app s ins)) \<noteq> None \<longrightarrow> currentCallId (fst (run_app s ins)) \<noteq> None"
proof (induction ins arbitrary: s)
  case Nil
  then show ?case by simp
next
  case (Cons bi ins)
  obtain b i where bi: "bi = (b, i)" by (cases bi)
  from Cons.IH [OF step_start_time [OF Cons.prems, of b i]] bi
  show ?case by (simp add: split_beta Let_def)
qed

lemma step_invite_frame:
  "currentInviteId (fst (step b s i)) \<noteq> currentInviteId s \<longrightarrow>
     (\<exists>frm x. i = Ledger (CallInvited frm (userAddress s) x)) \<or>
     i = AcceptSettled True \<or> i = DeclineSettled True"
proof (cases i)
  case (Ledger ev)
  then show ?thesis
    by (cases ev) (auto simp: app_defs Let_def split: option.splits if_splits)
qed (auto simp: app_defs Let_def split: option.splits if_splits)

lemma step_call_frame:
  "currentCallId (fst (step b s i)) \<noteq> currentCallId s \<longrightarrow>
     (\<exists>to c. i = Ledger (CallAccepted (userAddress s) to c)) \<or>
     (\<exists>c ini rcp. i = Ledger (CallStarted c ini rcp) \<and> (ini = userAddress s \<or> rcp = userAddress s)) \<or>
     (\<exists>c d. i = Ledger (CallEnded c d) \<and> currentCallId s = Some c) \<or>
     i = EndSettled True"
proof (cases i)
  case (Ledger ev)
  then show ?thesis
    by (cases ev) (auto simp: app_defs Let_def split: option.splits if_splits)
qed (auto simp: app_defs Let_def split: option.splits if_splits)

lemma cleanup_fields:
  "currentCallId (fst (cleanup s)) = None" "callStartTime (fst (cleanup s)) = None"
  "localStream (fst (cleanup s)) = None" "peerConnection (fst (cleanup s)) = None"
  "currentInviteId (fst (cleanup s)) = currentInviteId s"
  "remoteStream (fst (cleanup s)) = remoteStream s"
  "userAddress (fst (cleanup s)) = userAddress s"
  "selectedContact (fst (cleanup s)) = selectedContact s"
  by (simp_all add: cleanup_def split: option.splits)

lemma cleanup_effects:
  "localStream s = Some st \<Longrightarrow> StopTracks st \<in> set (snd (cleanup s))"
  "peerConnection s = Some p \<Longrightarrow> ClosePeer p \<in> set (snd (cleanup s))"
  "durationInterval s = Some n \<Longrightarrow> n \<noteq> 0 \<Longrightarrow>
     ClearInterval n \<in> set (snd (cleanup s)) \<and> durationInterval (fst (cleanup s)) = None"
  by (simp_all add: cleanup_def split: option.splits)

lemma cleanup_twice: "cleanup (fst (cleanup s)) = (fst (cleanup s), [])"
  by (simp add: cleanup_def split: option.splits)

lemma cleanup_submits_nothing: "submitted (snd (cleanup s)) = []"
  by (simp add: cleanup_def split: option.splits)

lemma submitted_append: "submitted (xs @ ys) = submitted xs @ submitted ys"
  by (induction xs rule: submitted.induct) simp_all

subsection \<open>The two identifiers\<close>

text \<open>
  Claim C1, as the specification states it: after every transition \<open>currentCallId\<close>
  is set if and only if the phase is Starting or Connected, and \<open>currentInviteId\<close> is
  set only in phase IncomingInvite.

  The class keeps no phase, and no phase could be assigned to its states so that this
  holds: when the client of user 1 is shown an invitation from user 3 and then learns
  that user 2 accepted a call it placed, both identifiers are set, and each of the six
  phases violates one half of the invariant or the other.
\<close>

theorem phase_invariant_counterexample:
  "app_invited_and_called = fst (run_app (PrivateVideoCallApp 1)
     [(browser0, Ledger (CallInvited 3 1 55)), (browser0, Ledger (CallAccepted 1 2 7))]) \<and>
   currentCallId app_invited_and_called = Some 7 \<and>
   currentInviteId app_invited_and_called = Some 55 \<and>
   \<not> spec_invariant Idle app_invited_and_called \<and>
   \<not> spec_invariant IncomingInvite app_invited_and_called \<and>
   \<not> spec_invariant OutgoingInvite app_invited_and_called \<and>
   \<not> spec_invariant Starting app_invited_and_called \<and>
   \<not> spec_invariant Connected app_invited_and_called \<and>
   \<not> spec_invariant Ending app_invited_and_called"
proof (intro conjI)
  show "app_invited_and_called = fst (run_app (PrivateVideoCallApp 1)
     [(browser0, Ledger (CallInvited 3 1 55)), (browser0, Ledger (CallAccepted 1 2 7))])"
    by (rule app_invited_and_called_def)
qed (simp_all add: app_invited_and_called_eval spec_invariant_def)

text \<open>
  Claim C1, amended: a new coordinator has neither identifier set. After every
  sequence of transitions \<open>callStartTime\<close> is set only if \<open>currentCallId\<close> is set.
  The two identifiers are kept independently of each other: a transition changes
  \<open>currentInviteId\<close> only if it is a \<open>CallInvited\<close> event addressed to the user or
  the confirmation of an accept or decline transaction, and changes \<open>currentCallId\<close>
  only if it is a \<open>CallAccepted\<close> event naming the user as initiator, a
  \<open>CallStarted\<close> event naming the user as a participant, a \<open>CallEnded\<close> event for
  the current call or the confirmation of an end-call transaction. Of these, the
  \<open>CallInvited\<close> event sets \<open>currentInviteId\<close> to its \<open>inviteId\<close> and either
  confirmation clears it; the \<open>CallAccepted\<close> and \<open>CallStarted\<close> events set
  \<open>currentCallId\<close> to their \<open>callId\<close>, and the \<open>CallEnded\<close> event and the
  confirmation of the end-call transaction clear it.
\<close>

theorem identifiers_tracked_independently:
  "currentCallId (PrivateVideoCallApp self) = None \<and>
   currentInviteId (PrivateVideoCallApp self) = None \<and>
   (callStartTime (fst (run_app (PrivateVideoCallApp self) ins)) \<noteq> None \<longrightarrow>
      currentCallId (fst (run_app (PrivateVideoCallApp self) ins)) \<noteq> None) \<and>
   (currentInviteId (fst (step b s i)) \<noteq> currentInviteId s \<longrightarrow>
      (\<exists>frm x. i = Ledger (CallInvited frm (userAddress s) x)) \<or>
      i = AcceptSettled True \<or> i = DeclineSettled True) \<and>
   (currentCallId (fst (step b s i)) \<noteq> currentCallId s \<longrightarrow>
      (\<exists>to c. i = Ledger (CallAccepted (userAddress s) to c)) \<or>
      (\<exists>c ini rcp. i = Ledger (CallStarted c ini rcp) \<and>
                     (ini = userAddress s \<or> rcp = userAddress s)) \<or>
      (\<exists>c d. i = Ledger (CallEnded c d) \<and> currentCallId s = Some c) \<or>
      i = EndSettled True) \<and>
   currentInviteId (fst (step b s (Ledger (CallInvited frm (userAddress s) x)))) = Some x \<and>
   currentInviteId (fst (step b s (AcceptSettled True))) = None \<and>
   currentInviteId (fst (step b s (DeclineSettled True))) = None \<and>
   currentCallId (fst (step b s (Ledger (CallAccepted (userAddress s) to c)))) = Some c \<and>
   (ini = userAddress s \<or> rcp = userAddress s \<longrightarrow>
      currentCallId (fst (step b s (Ledger (CallStarted c ini rcp)))) = Some c) \<and>
   (currentCallId s = Some c \<longrightarrow>
      currentCallId (fst (step b s (Ledger (CallEnded c d)))) = None) \<and>
   currentCallId (fst (step b s (EndSettled True))) = None"
proof (intro conjI)
  show "currentInviteId (fst (step b s (Ledger (CallInvited frm (userAddress s) x)))) = Some x"
    by (simp add: showIncomingCall_def)
  show "currentInviteId (fst (step b s (AcceptSettled True))) = None"
    by (simp add: acceptInvite_resume_def hideIncomingCall_def)
  show "currentInviteId (fst (step b s (DeclineSettled True))) = None"
    by (simp add: declineInvite_resume_def hideIncomingCall_def)
  show "currentCallId (fst (step b s (Ledger (CallAccepted (userAddress s) to c)))) = Some c"
    by (simp add: handleCallAccepted_def startVideoCall_app_def)
  show "ini = userAddress s \<or> rcp = userAddress s \<longrightarrow>
      currentCallId (fst (step b s (Ledger (CallStarted c ini rcp)))) = Some c"
    by (simp add: handleCallStarted_def startCallTimer_def)
  show "currentCallId s = Some c \<longrightarrow>
      currentCallId (fst (step b s (Ledger (CallEnded c d)))) = None"
    by (simp add: handleCallEnded_def split_beta cleanup_fields)
  show "currentCallId (fst (step b s (EndSettled True))) = None"
    by (simp add: endCall_resume_def cleanup_fields)
  show "currentCallId (PrivateVideoCallApp self) = None"
    by (simp add: PrivateVideoCallApp_def)
  show "currentInviteId (PrivateVideoCallApp self) = None"
    by (simp add: PrivateVideoCallApp_def)
  have "callStartTime (PrivateVideoCallApp self) \<noteq> None \<longrightarrow>
        currentCallId (PrivateVideoCallApp self) \<noteq> None"
    by (simp add: PrivateVideoCallApp_def)
  then show "callStartTime (fst (run_app (PrivateVideoCallApp self) ins)) \<noteq> None \<longrightarrow>
      currentCallId (fst (run_app (PrivateVideoCallApp self) ins)) \<noteq> None"
    by (rule run_app_start_time)
  show "currentInviteId (fst (step b s i)) \<noteq> currentInviteId s \<longrightarrow>
      (\<exists>frm x. i = Ledger (CallInvited frm (userAddress s) x)) \<or>
      i = AcceptSettled True \<or> i = DeclineSettled True"
    by (rule step_invite_frame)
  show "currentCallId (fst (step b s i)) \<noteq> currentCallId s \<longrightarrow>
      (\<exists>to c. i = Ledger (CallAccepted (userAddress s) to c)) \<or>
      (\<exists>c ini rcp. i = Ledger (CallStarted c ini rcp) \<and>
                     (ini = userAddress s \<or> rcp = userAddress s)) \<or>
      (\<exists>c d. i = Ledger (CallEnded c d) \<and> currentCallId s = Some c) \<or>
      i = EndSettled True"
    by (rule step_call_frame)
qed

theorem identifiers_tracked_independently_witness:
  "callStartTime (fst (run_app (PrivateVideoCallApp 1) [(browser0, Ledger (CallStarted 7 1 2))])) = Some 1000 \<and>
   currentCallId (fst (run_app (PrivateVideoCallApp 1) [(browser0, Ledger (CallStarted 7 1 2))])) \<noteq> None \<and>
   currentInviteId (PrivateVideoCallApp 1) = None \<and>
   currentInviteId app_in_call = Some 55 \<and>
   currentInviteId (fst (step browser0 app_in_call (Ledger (CallInvited 4 1 66)))) = Some 66 \<and>
   currentInviteId (fst (step browser0 app_in_call (DeclineSettled True))) = None \<and>
   currentCallId app_in_call = Some 7 \<and>
   currentCallId (fst (step browser0 app_in_call (Ledger (CallStarted 7 1 2)))) = Some 7 \<and>
   currentCallId (fst (step browser0 app_in_call (Ledger (CallEnded 7 40)))) = None \<and>
   currentCallId (fst (step browser0 app_in_call (Ledger (CallInvited 4 1 66)))) = Some 7"
proof -
  note t = identifiers_tracked_independently [where self = 1
     and ins = "[(browser0, Ledger (CallStarted 7 1 2))]" and b = browser0 and s = app_in_call
     and i = "Ledger (CallInvited 4 1 66)" and frm = 4 and x = 66 and to = 2 and c = 7
     and ini = 1 and rcp = 2 and d = 40]
  have f: "userAddress app_in_call = 1" "currentCallId app_in_call = Some 7"
    "currentInviteId app_in_call = Some 55"
    by (simp_all add: app_in_call_eval)
  have a: "callStartTime (fst (run_app (PrivateVideoCallApp 1) [(browser0, Ledger (CallStarted 7 1 2))])) = Some 1000"
    by (simp add: PrivateVideoCallApp_def browser0_def app_defs)
  from t have "callStartTime (fst (run_app (PrivateVideoCallApp 1) [(browser0, Ledger (CallStarted 7 1 2))])) \<noteq> None \<longrightarrow>
      currentCallId (fst (run_app (PrivateVideoCallApp 1) [(browser0, Ledger (CallStarted 7 1 2))])) \<noteq> None"
    by blast
  with a have d: "currentCallId (fst (run_app (PrivateVideoCallApp 1) [(browser0, Ledger (CallStarted 7 1 2))])) \<noteq> None"
    by simp
  from t have e: "currentInviteId (PrivateVideoCallApp 1) = None" by blast
  from t have "currentInviteId (fst (step browser0 app_in_call (Ledger (CallInvited 4 (userAddress app_in_call) 66)))) = Some 66"
    by blast
  then have g: "currentInviteId (fst (step browser0 app_in_call (Ledger (CallInvited 4 1 66)))) = Some 66"
    by (simp only: f(1))
  from t have h: "currentInviteId (fst (step browser0 app_in_call (DeclineSettled True))) = None"
    by blast
  from t have "1 = userAddress app_in_call \<or> 2 = userAddress app_in_call \<longrightarrow>
      currentCallId (fst (step browser0 app_in_call (Ledger (CallStarted 7 1 2)))) = Some 7"
    by blast
  with f(1) have j: "currentCallId (fst (step browser0 app_in_call (Ledger (CallStarted 7 1 2)))) = Some 7"
    by simp
  from t have "currentCallId app_in_call = Some 7 \<longrightarrow>
      currentCallId (fst (step browser0 app_in_call (Ledger (CallEnded 7 40)))) = None"
    by blast
  with f(2) have k: "currentCallId (fst (step browser0 app_in_call (Ledger (CallEnded 7 40)))) = None"
    by simp
  have l: "currentCallId (fst (step browser0 app_in_call (Ledger (CallInvited 4 1 66)))) = Some 7"
  proof (rule ccontr)
    assume n: "currentCallId (fst (step browser0 app_in_call (Ledger (CallInvited 4 1 66)))) \<noteq> Some 7"
    from t have "currentCallId (fst (step browser0 app_in_call (Ledger (CallInvited 4 1 66))))
        \<noteq> currentCallId app_in_call \<longrightarrow>
      (\<exists>to c. Ledger (CallInvited 4 1 66) = Ledger (CallAccepted (userAddress app_in_call) to c)) \<or>
      (\<exists>c ini rcp. Ledger (CallInvited 4 1 66) = Ledger (CallStarted c ini rcp) \<and>
                     (ini = userAddress app_in_call \<or> rcp = userAddress app_in_call)) \<or>
      (\<exists>c d. Ledger (CallInvited 4 1 66) = Ledger (CallEnded c d) \<and> currentCallId app_in_call = Some c) \<or>
      Ledger (CallInvited 4 1 66) = EndSettled True"
      by blast
    with n f(2) show False by simp
  qed
  from a d e f(3) g h f(2) j k l show ?thesis by blast
qed

subsection \<open>Ending a call\<close>

text \<open>
  Claim C2, as the specification states it: from every state with a call identifier,
  the end-call operation returns the coordinator to Idle with all optional fields
  cleared and all media streams and the negotiator released, and ending a second time
  is a no-op.

  In the state \<open>app_in_call\<close> (call 7 running, invitation 55 still shown) a confirmed
  end-call leaves \<open>currentInviteId\<close> set, and an end-call whose transaction fails
  changes nothing at all: the coordinator stays in the call.
\<close>

theorem end_call_counterexample:
  "currentCallId app_in_call = Some 7 \<and>
   currentInviteId (fst (run_app app_in_call [(browser0, ClickEnd), (browser0, EndSettled True)])) = Some 55 \<and>
   run_app app_in_call [(browser0, ClickEnd), (browser0, EndSettled False)]
     = (app_in_call, [Submit (EndVideoCall 7)]) \<and>
   \<not> spec_invariant Idle (fst (run_app app_in_call [(browser0, ClickEnd), (browser0, EndSettled False)]))"
  by (simp add: app_in_call_eval app_defs spec_invariant_def)

text \<open>
  Claim C2, amended: in a state with \<open>currentCallId = c\<close>, the end-call action
  submits \<open>endVideoCall(c)\<close>. If the transaction fails the state is unchanged. When
  it is confirmed, and likewise on a \<open>CallEnded\<close> event for \<open>c\<close>, \<open>cleanup\<close>
  runs: it clears \<open>currentCallId\<close> and \<open>callStartTime\<close>, stops the tracks of the
  local stream, closes the peer connection and clears the duration timer, and forgets
  these three handles; \<open>currentInviteId\<close> is left as it was.
  After \<open>cleanup\<close> a further end-call action does nothing and a further \<open>cleanup\<close>
  changes nothing.
\<close>

theorem end_call_releases_call_resources:
  assumes "currentCallId s = Some c"
  shows "step b s ClickEnd = (s, [Submit (EndVideoCall c)]) \<and>
         step b s (EndSettled False) = (s, []) \<and>
         step b s (EndSettled True) = cleanup s \<and>
         step b s (Ledger (CallEnded c d)) = (fst (cleanup s), snd (cleanup s) @ [LoadCallHistory]) \<and>
         currentCallId (fst (cleanup s)) = None \<and>
         callStartTime (fst (cleanup s)) = None \<and>
         localStream (fst (cleanup s)) = None \<and>
         peerConnection (fst (cleanup s)) = None \<and>
         (\<forall>st. localStream s = Some st \<longrightarrow> StopTracks st \<in> set (snd (cleanup s))) \<and>
         (\<forall>p. peerConnection s = Some p \<longrightarrow> ClosePeer p \<in> set (snd (cleanup s))) \<and>
         (\<forall>n. durationInterval s = Some n \<and> n \<noteq> 0 \<longrightarrow>
              ClearInterval n \<in> set (snd (cleanup s)) \<and> durationInterval (fst (cleanup s)) = None) \<and>
         currentInviteId (fst (cleanup s)) = currentInviteId s \<and>
         step b' (fst (cleanup s)) ClickEnd = (fst (cleanup s), []) \<and>
         cleanup (fst (cleanup s)) = (fst (cleanup s), [])"
proof -
  from assms have a: "step b s ClickEnd = (s, [Submit (EndVideoCall c)])"
    by (simp add: endCall_def)
  have b: "step b s (EndSettled False) = (s, [])" "step b s (EndSettled True) = cleanup s"
    by (simp_all add: endCall_resume_def)
  from assms have c: "step b s (Ledger (CallEnded c d)) = (fst (cleanup s), snd (cleanup s) @ [LoadCallHistory])"
    by (simp add: handleCallEnded_def split_beta)
  have e: "step b' (fst (cleanup s)) ClickEnd = (fst (cleanup s), [])"
    by (simp add: endCall_def cleanup_fields)
  have f: "\<forall>st. localStream s = Some st \<longrightarrow> StopTracks st \<in> set (snd (cleanup s))"
    "\<forall>p. peerConnection s = Some p \<longrightarrow> ClosePeer p \<in> set (snd (cleanup s))"
    "\<forall>n. durationInterval s = Some n \<and> n \<noteq> 0 \<longrightarrow>
        ClearInterval n \<in> set (snd (cleanup s)) \<and> durationInterval (fst (cleanup s)) = None"
    by (simp_all add: cleanup_effects)
  from a b c e f show ?thesis
    by (simp only: cleanup_fields cleanup_twice simp_thms)
qed

theorem end_call_releases_call_resources_witness:
  "currentCallId app_in_call = Some 7 \<and>
   step browser0 app_in_call (EndSettled True) = cleanup app_in_call \<and>
   currentCallId (fst (cleanup app_in_call)) = None \<and>
   StopTracks 8 \<in> set (snd (cleanup app_in_call)) \<and>
   ClosePeer (RTCPeerConnection (Some 8)) \<in> set (snd (cleanup app_in_call)) \<and>
   ClearInterval 1 \<in> set (snd (cleanup app_in_call)) \<and>
   currentInviteId (fst (cleanup app_in_call)) = Some 55 \<and>
   step browser0 (fst (cleanup app_in_call)) ClickEnd = (fst (cleanup app_in_call), [])"
proof -
  have h: "currentCallId app_in_call = Some 7" by (simp add: app_in_call_eval)
  note t = end_call_releases_call_resources [OF h, of browser0 0 browser0]
  have f: "localStream app_in_call = Some 8"
    "peerConnection app_in_call = Some (RTCPeerConnection (Some 8))"
    "durationInterval app_in_call = Some 1 \<and> (1::nat) \<noteq> 0"
    "currentInviteId app_in_call = Some 55"
    by (simp_all add: app_in_call_eval)
  from t have r: "step browser0 app_in_call (EndSettled True) = cleanup app_in_call"
    "currentCallId (fst (cleanup app_in_call)) = None"
    "\<forall>st. localStream app_in_call = Some st \<longrightarrow> StopTracks st \<in> set (snd (cleanup app_in_call))"
    "\<forall>p. peerConnection app_in_call = Some p \<longrightarrow> ClosePeer p \<in> set (snd (cleanup app_in_call))"
    "\<forall>n. durationInterval app_in_call = Some n \<and> n \<noteq> 0 \<longrightarrow>
        ClearInterval n \<in> set (snd (cleanup app_in_call)) \<and>
        durationInterval (fst (cleanup app_in_call)) = None"
    "currentInviteId (fst (cleanup app_in_call)) = currentInviteId app_in_call"
    "step browser0 (fst (cleanup app_in_call)) ClickEnd = (fst (cleanup app_in_call), [])"
    by blast+
  from r(3) f(1) have s1: "StopTracks 8 \<in> set (snd (cleanup app_in_call))" by blast
  from r(4) f(2) have s2: "ClosePeer (RTCPeerConnection (Some 8)) \<in> set (snd (cleanup app_in_call))" by blast
  from r(5) f(3) have s3: "ClearInterval 1 \<in> set (snd (cleanup app_in_call))" by blast
  from h r(1) r(2) s1 s2 s3 r(6) f(4) r(7) show ?thesis by simp
qed

subsection \<open>The \<open>CallAccepted\<close> listener\<close>

text \<open>
  Claim C4, as the specification states it: a \<open>CallAccepted\<close> event whose initiator
  is not the local user, or whose \<open>callId\<close> is stale (does not belong to the
  coordinator's current outgoing invitation), leaves every field unchanged.

  The listener tests the initiator and nothing else; the class keeps no record of an
  outgoing invitation. A new coordinator, which has placed no call, takes up call 9 from
  such an event, and a coordinator in call 7 replaces it by call 9.
\<close>

theorem CallAccepted_counterexample:
  "currentCallId (PrivateVideoCallApp 1) = None \<and>
   step browser0 (PrivateVideoCallApp 1) (Ledger (CallAccepted 1 2 9))
     = ((PrivateVideoCallApp 1)\<lparr>currentCallId := Some 9\<rparr>, [GetUserMedia]) \<and>
   currentCallId app_in_call = Some 7 \<and>
   currentCallId (fst (step browser0 app_in_call (Ledger (CallAccepted 1 2 9)))) = Some 9"
  by (simp add: app_in_call_eval PrivateVideoCallApp_def handleCallAccepted_def
        startVideoCall_app_def)

text \<open>
  Claim C4, amended: a \<open>CallAccepted\<close> event whose initiator is not the local user
  leaves every field unchanged and has no effect. One that names the local user as
  initiator sets \<open>currentCallId\<close> to the event's \<open>callId\<close>, whatever was tracked
  before, and requests the media devices.
\<close>

theorem CallAccepted_checks_initiator_only:
  "(frm \<noteq> userAddress s \<longrightarrow> step b s (Ledger (CallAccepted frm to c)) = (s, [])) \<and>
   step b s (Ledger (CallAccepted (userAddress s) to c))
     = (s\<lparr>currentCallId := Some c\<rparr>, [GetUserMedia])"
  by (simp add: handleCallAccepted_def startVideoCall_app_def)

theorem CallAccepted_checks_initiator_only_witness:
  "(3::address) \<noteq> userAddress app_in_call \<and>
   step browser0 app_in_call (Ledger (CallAccepted 3 2 9)) = (app_in_call, []) \<and>
   step browser0 app_in_call (Ledger (CallAccepted 1 2 9))
     = (app_in_call\<lparr>currentCallId := Some 9\<rparr>, [GetUserMedia])"
proof -
  have h: "(3::address) \<noteq> userAddress app_in_call" "userAddress app_in_call = 1"
    by (simp_all add: app_in_call_eval)
  from CallAccepted_checks_initiator_only [of 3 app_in_call browser0 2 9] h
  show ?thesis by simp
qed

subsection \<open>Failure of media capture\<close>

text \<open>
  Claim C5, as the specification states it: if media-device acquisition fails while
  the coordinator is starting a call, the coordinator goes back to Idle, submits no
  start-call transaction and keeps no negotiator; it is never left in Starting.

  After the acceptance of call 7 and the rejection of \<open>getUserMedia\<close> the
  coordinator still has \<open>currentCallId = 7\<close>: it has not gone back to Idle.
\<close>

theorem media_failure_counterexample:
  "run_app (PrivateVideoCallApp 1)
     [(browser0, Ledger (CallAccepted 1 2 7)), (browser0, MediaSettled None)]
     = ((PrivateVideoCallApp 1)\<lparr>currentCallId := Some 7\<rparr>, [GetUserMedia]) \<and>
   currentCallId (fst (run_app (PrivateVideoCallApp 1)
     [(browser0, Ledger (CallAccepted 1 2 7)), (browser0, MediaSettled None)])) = Some 7 \<and>
   \<not> spec_invariant Idle (fst (run_app (PrivateVideoCallApp 1)
     [(browser0, Ledger (CallAccepted 1 2 7)), (browser0, MediaSettled None)]))"
  by (simp add: PrivateVideoCallApp_def handleCallAccepted_def startVideoCall_app_def
        startVideoCall_app_resume_def startMediaCapture_resume_def spec_invariant_def)

text \<open>
  Claim C5, amended: when \<open>getUserMedia\<close> is rejected, \<open>startVideoCall\<close> changes
  no field and has no effect: no start-call transaction is submitted and no peer
  connection is created. In particular a coordinator that learns of the acceptance of
  call \<open>c\<close> and then fails to capture media has submitted nothing, has no peer
  connection, and still has \<open>currentCallId = c\<close>.
\<close>

theorem media_failure_leaves_state:
  "step b s (MediaSettled None) = (s, []) \<and>
   run_app (PrivateVideoCallApp self) [(b1, Ledger (CallAccepted self to c)), (b2, MediaSettled None)]
     = ((PrivateVideoCallApp self)\<lparr>currentCallId := Some c\<rparr>, [GetUserMedia]) \<and>
   peerConnection (fst (run_app (PrivateVideoCallApp self)
     [(b1, Ledger (CallAccepted self to c)), (b2, MediaSettled None)])) = None \<and>
   submitted (snd (run_app (PrivateVideoCallApp self)
     [(b1, Ledger (CallAccepted self to c)), (b2, MediaSettled None)])) = []"
  by (simp add: PrivateVideoCallApp_def handleCallAccepted_def startVideoCall_app_def
        startVideoCall_app_resume_def startMediaCapture_resume_def)

theorem media_failure_leaves_state_witness:
  "step browser0 app_invited_and_called (MediaSettled None) = (app_invited_and_called, []) \<and>
   currentCallId app_invited_and_called = Some 7 \<and>
   peerConnection (fst (run_app (PrivateVideoCallApp 1)
     [(browser0, Ledger (CallAccepted 1 2 7)), (browser0, MediaSettled None)])) = None"
proof -
  note t = media_failure_leaves_state [of browser0 app_invited_and_called 1 browser0 2 7 browser0]
  have b: "currentCallId app_invited_and_called = Some 7"
    by (simp add: app_invited_and_called_eval)
  from t b show ?thesis by blast
qed

subsection \<open>A second invitation\<close>

text \<open>
  Claim C6, as the specification states it: an incoming invitation that arrives while
  an invitation or a call is already tracked is queued or rejected, and the tracked
  \<open>inviteId\<close> is not overwritten; exactly one invitation or call is tracked at a time.

  \<open>showIncomingCall\<close> assigns \<open>currentInviteId\<close> without a test: the invitation 66
  replaces the invitation 55, also during call 7, and nothing is submitted in reply.
\<close>

theorem incoming_invite_counterexample:
  "currentInviteId (fst (run_app (PrivateVideoCallApp 1) [(browser0, Ledger (CallInvited 3 1 55))]))
     = Some 55 \<and>
   run_app (PrivateVideoCallApp 1)
     [(browser0, Ledger (CallInvited 3 1 55)), (browser0, Ledger (CallInvited 4 1 66))]
     = ((PrivateVideoCallApp 1)\<lparr>currentInviteId := Some 66\<rparr>, []) \<and>
   currentCallId app_in_call = Some 7 \<and>
   step browser0 app_in_call (Ledger (CallInvited 4 1 66))
     = (app_in_call\<lparr>currentInviteId := Some 66\<rparr>, [])"
  by (simp add: app_in_call_eval PrivateVideoCallApp_def showIncomingCall_def)

text \<open>
  Claim C6, amended: a \<open>CallInvited\<close> event addressed to the local user sets
  \<open>currentInviteId\<close> to the new \<open>inviteId\<close>, whether or not an invitation or a call
  is tracked, changes no other field and submits nothing; one addressed to another user
  changes nothing. At most one invitation, the latest, is tracked, next to at most one
  call.
\<close>

theorem incoming_invite_overwrites:
  "step b s (Ledger (CallInvited frm (userAddress s) x)) = (s\<lparr>currentInviteId := Some x\<rparr>, []) \<and>
   (to \<noteq> userAddress s \<longrightarrow> step b s (Ledger (CallInvited frm to x)) = (s, []))"
  by (simp add: showIncomingCall_def)

theorem incoming_invite_overwrites_witness:
  "currentInviteId app_in_call = Some 55 \<and>
   step browser0 app_in_call (Ledger (CallInvited 4 1 66))
     = (app_in_call\<lparr>currentInviteId := Some 66\<rparr>, []) \<and>
   (2::address) \<noteq> userAddress app_in_call \<and>
   step browser0 app_in_call (Ledger (CallInvited 4 2 66)) = (app_in_call, [])"
proof -
  have h: "(2::address) \<noteq> userAddress app_in_call" "userAddress app_in_call = 1"
    "currentInviteId app_in_call = Some 55"
    by (simp_all add: app_in_call_eval)
  from incoming_invite_overwrites [of browser0 app_in_call 4 66 2] h
  show ?thesis by simp
qed

subsection \<open>Ending a call twice\<close>

text \<open>
  Claim C7, as the specification states it: two end-call actions in a row submit
  exactly one end-call transaction; the second is a no-op.

  \<open>endCall\<close> tests \<open>currentCallId\<close>, which \<open>cleanup\<close> resets only after the
  transaction is confirmed. A second click before that submits the transaction again.
\<close>

theorem end_call_twice_counterexample:
  "currentCallId app_in_call = Some 7 \<and>
   run_app app_in_call [(browser0, ClickEnd), (browser0, ClickEnd)]
     = (app_in_call, [Submit (EndVideoCall 7), Submit (EndVideoCall 7)])"
  by (simp add: app_in_call_eval endCall_def)

text \<open>
  Claim C7, amended: in a state with \<open>currentCallId = c\<close>, two end-call actions
  submit one \<open>endVideoCall(c)\<close> when the second comes after the first transaction
  was confirmed, and two when it comes while the first is pending or after it failed.
  On the ledger a second \<open>endVideoCall\<close> for a call that one has ended reverts, for
  a participant with the already-ended error.
\<close>

theorem end_call_twice:
  assumes "currentCallId s = Some c"
  shows "submitted (snd (run_app s [(b1, ClickEnd), (b2, EndSettled True), (b3, ClickEnd)]))
           = [EndVideoCall c] \<and>
         submitted (snd (run_app s [(b1, ClickEnd), (b2, ClickEnd)]))
           = [EndVideoCall c, EndVideoCall c] \<and>
         submitted (snd (run_app s [(b1, ClickEnd), (b2, EndSettled False), (b3, ClickEnd)]))
           = [EndVideoCall c, EndVideoCall c] \<and>
         (\<forall>L e1 e2 k. \<not> isl (endVideoCall L e1 k) \<longrightarrow>
            isl (endVideoCall (fst (transact H L (e1, EndVideoCall k))) e2 k) \<and>
            (onlyCallParticipant (fst (transact H L (e1, EndVideoCall k))) e2 k \<longrightarrow>
               endVideoCall (fst (transact H L (e1, EndVideoCall k))) e2 k = Inl CallAlreadyEnded))"
proof (intro conjI allI impI)
  from assms have e1: "endCall s = (s, [Submit (EndVideoCall c)])"
    by (simp add: endCall_def)
  have e2: "endCall (fst (cleanup s)) = (fst (cleanup s), [])"
    by (simp add: endCall_def cleanup_fields)
  show "submitted (snd (run_app s [(b1, ClickEnd), (b2, EndSettled True), (b3, ClickEnd)]))
           = [EndVideoCall c]"
    by (simp add: e1 e2 endCall_resume_def split_beta submitted_append cleanup_submits_nothing)
  show "submitted (snd (run_app s [(b1, ClickEnd), (b2, ClickEnd)])) = [EndVideoCall c, EndVideoCall c]"
    by (simp add: e1)
  show "submitted (snd (run_app s [(b1, ClickEnd), (b2, EndSettled False), (b3, ClickEnd)]))
           = [EndVideoCall c, EndVideoCall c]"
    by (simp add: e1 endCall_resume_def)
next
  fix L e1 e2 k
  assume ok: "\<not> isl (endVideoCall L e1 k)"
  then have inactive: "callExists (fst (transact H L (e1, EndVideoCall k))) k \<and>
      \<not> isActive (videoCalls (fst (transact H L (e1, EndVideoCall k))) k)"
    by (auto simp: endVideoCall_def transact_def callExists_def Let_def split: if_splits)
  then show "isl (endVideoCall (fst (transact H L (e1, EndVideoCall k))) e2 k)"
    by (simp add: endVideoCall_def Let_def)
  assume "onlyCallParticipant (fst (transact H L (e1, EndVideoCall k))) e2 k"
  with inactive
  show "endVideoCall (fst (transact H L (e1, EndVideoCall k))) e2 k = Inl CallAlreadyEnded"
    by (simp add: endVideoCall_def Let_def)
qed

theorem end_call_twice_witness:
  "currentCallId app_in_call = Some 7 \<and>
   submitted (snd (run_app app_in_call
     [(browser0, ClickEnd), (browser0, EndSettled True), (browser0, ClickEnd)])) = [EndVideoCall 7] \<and>
   submitted (snd (run_app app_in_call [(browser0, ClickEnd), (browser0, ClickEnd)]))
     = [EndVideoCall 7, EndVideoCall 7] \<and>
   \<not> isl (endVideoCall ledger_started (at 1 30) 1) \<and>
   endVideoCall (fst (transact sample_digest ledger_started (at 1 30, EndVideoCall 1))) (at 2 31) 1
     = Inl CallAlreadyEnded"
proof -
  have h: "currentCallId app_in_call = Some 7" by (simp add: app_in_call_eval)
  note t = end_call_twice [where s = app_in_call and c = 7 and H = sample_digest
     and ?b1.0 = browser0 and ?b2.0 = browser0 and ?b3.0 = browser0, OF h]
  have l: "\<not> isl (endVideoCall ledger_started (at 1 30) 1)"
    by (simp add: fixture_defs op_defs Let_def)
  have p: "onlyCallParticipant (fst (transact sample_digest ledger_started (at 1 30, EndVideoCall 1)))
     (at 2 31) 1"
    by (simp add: fixture_defs op_defs Let_def)
  from t h l p show ?thesis by blast
qed

end
